theory Spec2Isabelle
  imports Complex_Main "HOL-Library.Log_Nat"
begin

section \<open>JavaScript values\<close>

text \<open>
  The program is \<^verbatim>\<open>src/services/onchain.js\<close>. It handles values parsed from JSON and the
  \<^verbatim>\<open>undefined\<close> that reading a missing property gives.

  A JavaScript number is an IEEE double: \<^verbatim>\<open>NaN\<close>, one of the two infinities, or a finite
  value, kept as the rational number it is exactly (\<open>Fin\<close>). Whatever computes a number
  rounds the exact result to the nearest double (\<open>to_double\<close> below). The two zeros are
  not told apart (nothing in the program does).

  A string is a list of 8-bit characters standing for its code units. An object is the
  list of its own properties; \<open>map_of\<close> reads it, so the first binding of a key counts.
\<close>

datatype jsnum = NaN | PosInf | NegInf | Fin rat

datatype jsval =
    JUndefined
  | JNull
  | JBool bool
  | JNum jsnum
  | JStr string
  | JArr "jsval list"
  | JObj "(string \<times> jsval) list"

text \<open>What a rejected promise or a \<^verbatim>\<open>throw\<close> carries: \<^verbatim>\<open>new Error(message)\<close>, a
  \<^verbatim>\<open>TypeError\<close> of the engine (reading a property of \<^verbatim>\<open>null\<close>, calling or iterating what is
  not callable or iterable, converting an object that has no usable \<^verbatim>\<open>toString\<close>), the
  \<^verbatim>\<open>SyntaxError\<close> of \<^verbatim>\<open>res.json()\<close> on a body that is not JSON, or a failure of the
  network.\<close>

datatype error = Error string | TypeError | SyntaxError | NetworkError string

subsection \<open>Truthiness, \<^verbatim>\<open>||\<close> and property reads\<close>

fun truthy :: "jsval \<Rightarrow> bool" where
  "truthy JUndefined = False"
| "truthy JNull = False"
| "truthy (JBool b) = b"
| "truthy (JNum NaN) = False"
| "truthy (JNum (Fin r)) = (r \<noteq> 0)"
| "truthy (JNum PosInf) = True"
| "truthy (JNum NegInf) = True"
| "truthy (JStr s) = (s \<noteq> [])"
| "truthy (JArr xs) = True"
| "truthy (JObj kvs) = True"

text \<open>\<^verbatim>\<open>a || b\<close>. The right operand is only evaluated when the left one is falsy; every
  right operand of the program is a property read of a value already read once, or a
  literal, so nothing is lost by passing it evaluated.\<close>

definition js_or :: "jsval \<Rightarrow> jsval \<Rightarrow> jsval" where
  "js_or a b = (if truthy a then a else b)"

definition nullish :: "jsval \<Rightarrow> bool" where
  "nullish v = (v = JUndefined \<or> v = JNull)"

text \<open>\<^verbatim>\<open>v.k\<close> for a \<open>v\<close> that is neither \<^verbatim>\<open>null\<close> nor \<^verbatim>\<open>undefined\<close> (on those the read throws;
  the callers check \<open>nullish\<close> first) and a key \<open>k\<close> of this program. None of these keys is
  an index, \<^verbatim>\<open>length\<close> or a method of the prototypes of strings, numbers, booleans or
  objects, so only an own property of an object gives something else than \<^verbatim>\<open>undefined\<close>.
  The one key that an array inherits is \<^verbatim>\<open>sort\<close>; it is read in one place, of the
  options of the Etherscan adapter, and \<open>etherscan_url\<close> treats it there.\<close>

fun get :: "jsval \<Rightarrow> string \<Rightarrow> jsval" where
  "get (JObj kvs) k = (case map_of kvs k of Some v \<Rightarrow> v | None \<Rightarrow> JUndefined)"
| "get v k = JUndefined"

text \<open>\<^verbatim>\<open>v?.k\<close>\<close>

definition opt_get :: "jsval \<Rightarrow> string \<Rightarrow> jsval" where
  "opt_get v k = (if nullish v then JUndefined else get v k)"

subsection \<open>Doubles\<close>

text \<open>Rounding a rational to the nearest double, ties to the even significand. \<open>ilog2 a\<close>
  is the exponent of a positive \<open>a\<close>, the integer \<open>e\<close> with \<open>2 ^ e \<le> a < 2 ^ (e + 1)\<close>; below
  \<open>2 ^ -1022\<close> the doubles are evenly spaced (subnormal), and what rounds to \<open>2 ^ 1024\<close>
  or more is infinite.\<close>

definition pow2 :: "int \<Rightarrow> rat" where
  "pow2 e = (if 0 \<le> e then 2 ^ nat e else 1 / 2 ^ nat (- e))"

definition ilog2 :: "rat \<Rightarrow> int" where
  "ilog2 a = (if 1 \<le> a then bitlen \<lfloor>a\<rfloor> - 1 else - bitlen (\<lceil>1 / a\<rceil> - 1))"

definition round_half_even :: "rat \<Rightarrow> int" where
  "round_half_even x =
     (let f = \<lfloor>x\<rfloor>; d = x - of_int f in
      if d < 1 / 2 then f else if 1 / 2 < d then f + 1 else if even f then f else f + 1)"

definition to_double :: "rat \<Rightarrow> jsnum" where
  "to_double r =
     (if r = 0 then Fin 0
      else
        let a = \<bar>r\<bar>;
            e = max (ilog2 a) (- 1022);
            q = pow2 (e - 52);
            v = of_int (round_half_even (a / q)) * q
        in if pow2 1024 \<le> v then (if r < 0 then NegInf else PosInf)
           else Fin (if r < 0 then - v else v))"

subsection \<open>Numbers and strings\<close>

definition digit_char :: "nat \<Rightarrow> char" where
  "digit_char d = char_of (48 + d)"

text \<open>Decimal notation of an integer, as \<^verbatim>\<open>Number.prototype.toString\<close> writes it.\<close>

function show_digits :: "int \<Rightarrow> string" where
  "show_digits n =
     (if n < 10 then [digit_char (nat n)]
      else show_digits (n div 10) @ [digit_char (nat (n mod 10))])"
  by pat_completeness auto
termination
  by (relation "measure nat") auto

declare show_digits.simps [simp del]

definition show_int :: "int \<Rightarrow> string" where
  "show_int i = (if i < 0 then CHR ''-'' # show_digits (- i) else show_digits i)"

text \<open>\<^verbatim>\<open>StringToNumber\<close>: white space is trimmed; the empty string is \<open>0\<close>; then an optional
  sign with \<^verbatim>\<open>Infinity\<close> or a decimal literal (digits, fraction, exponent), or an unsigned
  hexadecimal, octal or binary literal; anything else is \<^verbatim>\<open>NaN\<close>. The number is the
  double nearest to the value the literal denotes (the standard lets an engine cut a
  literal after twenty significant digits; the model rounds the exact value, as the
  engines in use do).\<close>

definition is_ws :: "char \<Rightarrow> bool" where
  "is_ws c = ((of_char c :: nat) \<in> {9, 10, 11, 12, 13, 32, 160})"

definition trim :: "string \<Rightarrow> string" where
  "trim s = rev (dropWhile is_ws (rev (dropWhile is_ws s)))"

definition digit_of :: "char \<Rightarrow> nat option" where
  "digit_of c =
     (let n = (of_char c :: nat) in
      if 48 \<le> n \<and> n \<le> 57 then Some (n - 48)
      else if 97 \<le> n \<and> n \<le> 102 then Some (n - 87)
      else if 65 \<le> n \<and> n \<le> 70 then Some (n - 55)
      else None)"

definition is_digit :: "nat \<Rightarrow> char \<Rightarrow> bool" where
  "is_digit base c = (case digit_of c of Some d \<Rightarrow> d < base | None \<Rightarrow> False)"

definition digits_val :: "nat \<Rightarrow> string \<Rightarrow> int" where
  "digits_val base ds = foldl (\<lambda>a c. int base * a + int (the (digit_of c))) 0 ds"

definition radix_literal :: "nat \<Rightarrow> string \<Rightarrow> jsnum" where
  "radix_literal base ds =
     (if ds \<noteq> [] \<and> list_all (is_digit base) ds then to_double (of_int (digits_val base ds))
      else NaN)"

definition pow10 :: "int \<Rightarrow> rat" where
  "pow10 e = (if 0 \<le> e then 10 ^ nat e else 1 / 10 ^ nat (- e))"

definition exponent_part :: "string \<Rightarrow> int option" where
  "exponent_part s =
     (case s of
        [] \<Rightarrow> Some 0
      | c # t \<Rightarrow>
          if c = CHR ''e'' \<or> c = CHR ''E'' then
            (let neg = (t \<noteq> [] \<and> hd t = CHR ''-'');
                 ds = (if t \<noteq> [] \<and> (hd t = CHR ''-'' \<or> hd t = CHR ''+'') then tl t else t)
             in if ds \<noteq> [] \<and> list_all (is_digit 10) ds
                then Some (if neg then - digits_val 10 ds else digits_val 10 ds)
                else None)
          else None)"

text \<open>The exact value of an unsigned decimal literal, when the string is one.\<close>

definition unsigned_decimal :: "string \<Rightarrow> rat option" where
  "unsigned_decimal s =
     (let ip = takeWhile (is_digit 10) s;
          r1 = dropWhile (is_digit 10) s;
          dot = (r1 \<noteq> [] \<and> hd r1 = CHR ''.'');
          fp = (if dot then takeWhile (is_digit 10) (tl r1) else []);
          r2 = (if dot then dropWhile (is_digit 10) (tl r1) else r1)
      in if ip = [] \<and> fp = [] then None
         else case exponent_part r2 of
                None \<Rightarrow> None
              | Some e \<Rightarrow>
                  Some ((of_int (digits_val 10 ip) + of_int (digits_val 10 fp) / 10 ^ length fp)
                        * pow10 e))"

definition signed_decimal :: "string \<Rightarrow> jsnum" where
  "signed_decimal s =
     (let neg = (s \<noteq> [] \<and> hd s = CHR ''-'');
          u = (if s \<noteq> [] \<and> (hd s = CHR ''-'' \<or> hd s = CHR ''+'') then tl s else s)
      in if u = ''Infinity'' then (if neg then NegInf else PosInf)
         else case unsigned_decimal u of
                None \<Rightarrow> NaN
              | Some r \<Rightarrow> to_double (if neg then - r else r))"

definition string_to_number :: "string \<Rightarrow> jsnum" where
  "string_to_number s =
     (let t = trim s in
      if t = [] then Fin 0
      else if take 2 t = ''0x'' \<or> take 2 t = ''0X'' then radix_literal 16 (drop 2 t)
      else if take 2 t = ''0o'' \<or> take 2 t = ''0O'' then radix_literal 8 (drop 2 t)
      else if take 2 t = ''0b'' \<or> take 2 t = ''0B'' then radix_literal 2 (drop 2 t)
      else signed_decimal t)"

section \<open>The runtime and the world\<close>

text \<open>
  A request is what \<^verbatim>\<open>fetch(url, init)\<close> is called with: the URL and, when an \<^verbatim>\<open>init\<close> is
  passed, its headers. A response is what the program reads of \<^verbatim>\<open>res\<close>: \<^verbatim>\<open>res.ok\<close>,
  \<^verbatim>\<open>res.status\<close>, and what \<^verbatim>\<open>res.text()\<close> and \<^verbatim>\<open>res.json()\<close> settle with.
\<close>

type_synonym request = "string \<times> (string \<times> string) list option"

record response =
  ok :: bool
  status :: nat
  body_text :: "error + string"
  body_json :: "error + jsval"

text \<open>
  What the program takes from its environment and does not define:
  \<^item> \<open>num_fmt\<close>: \<^verbatim>\<open>Number.prototype.toString\<close> on the finite numbers that are not integers
    below \<open>2 ^ 53\<close> in magnitude (on those it is decimal notation, \<open>show_int\<close>);
  \<^item> \<open>date_parse\<close>: \<^verbatim>\<open>Date.parse\<close> on a string (implementation-defined outside the ISO
    format);
  \<^item> \<open>json_stringify\<close>: \<^verbatim>\<open>JSON.stringify\<close> on a value parsed from JSON or \<^verbatim>\<open>undefined\<close>,
    which gives a string or \<^verbatim>\<open>undefined\<close> (\<open>None\<close>);
  \<^item> \<open>sort_source\<close>: the text the engine gives for the function \<^verbatim>\<open>Array.prototype.sort\<close>;
  \<^item> \<open>date_now\<close>: the value of the \<open>n\<close>-th \<^verbatim>\<open>Date.now()\<close> of the run, in milliseconds;
  \<^item> \<open>fetch\<close>: what the network answers to a request, or the error it rejects with.
\<close>

record runtime =
  num_fmt :: "rat \<Rightarrow> string"
  date_parse :: "string \<Rightarrow> jsnum"
  json_stringify :: "jsval \<Rightarrow> string option"
  sort_source :: string
  date_now :: "nat \<Rightarrow> int"
  fetch :: "request \<Rightarrow> error + response"

text \<open>The state the program changes: how often the clock was read, and the requests sent
  so far, oldest first.\<close>

record world =
  clock_reads :: nat
  requests :: "request list"

text \<open>The two credentials, read once from \<^verbatim>\<open>process.env\<close>: a string, or \<^verbatim>\<open>undefined\<close>
  (\<open>None\<close>). \<^verbatim>\<open>!key\<close> holds for \<^verbatim>\<open>undefined\<close> and for the empty string.\<close>

record config =
  etherscanKey :: "string option"
  covalentKey :: "string option"

definition key_set :: "string option \<Rightarrow> bool" where
  "key_set k = (case k of None \<Rightarrow> False | Some s \<Rightarrow> s \<noteq> [])"

subsection \<open>Conversions that use the runtime\<close>

definition num_to_string :: "runtime \<Rightarrow> jsnum \<Rightarrow> string" where
  "num_to_string rt n =
     (case n of
        NaN \<Rightarrow> ''NaN''
      | PosInf \<Rightarrow> ''Infinity''
      | NegInf \<Rightarrow> ''-Infinity''
      | Fin r \<Rightarrow>
          if of_int \<lfloor>r\<rfloor> = r \<and> \<bar>r\<bar> < 2 ^ 53 then show_int \<lfloor>r\<rfloor> else num_fmt rt r)"

fun join_comma :: "string list \<Rightarrow> string" where
  "join_comma [] = []"
| "join_comma [x] = x"
| "join_comma (x # y # zs) = x @ '','' @ join_comma (y # zs)"

text \<open>\<^verbatim>\<open>ToString\<close>, as a template literal, \<^verbatim>\<open>Date.parse\<close> and \<^verbatim>\<open>RegExp.prototype.test\<close> apply
  it. An object is converted by its \<^verbatim>\<open>toString\<close> method: the inherited one gives
  \<^verbatim>\<open>[object Object]\<close>, but an own property \<^verbatim>\<open>toString\<close> hides it, and as no value parsed
  from JSON can be called (the inherited \<^verbatim>\<open>valueOf\<close> returns the object itself), the
  conversion throws a \<^verbatim>\<open>TypeError\<close>. An array joins the conversions of its elements with
  commas, \<^verbatim>\<open>null\<close> and \<^verbatim>\<open>undefined\<close> elements as empty strings, and throws when an element
  does.\<close>

fun to_string :: "runtime \<Rightarrow> jsval \<Rightarrow> error + string"
  and to_strings :: "runtime \<Rightarrow> jsval list \<Rightarrow> error + string list"
where
  "to_string rt JUndefined = Inr ''undefined''"
| "to_string rt JNull = Inr ''null''"
| "to_string rt (JBool b) = Inr (if b then ''true'' else ''false'')"
| "to_string rt (JNum n) = Inr (num_to_string rt n)"
| "to_string rt (JStr s) = Inr s"
| "to_string rt (JArr xs) =
     (case to_strings rt xs of Inl e \<Rightarrow> Inl e | Inr ss \<Rightarrow> Inr (join_comma ss))"
| "to_string rt (JObj kvs) =
     (if map_of kvs ''toString'' = None then Inr ''[object Object]'' else Inl TypeError)"
| "to_strings rt [] = Inr []"
| "to_strings rt (x # xs) =
     (case (if nullish x then Inr [] else to_string rt x) of
        Inl e \<Rightarrow> Inl e
      | Inr s \<Rightarrow> (case to_strings rt xs of Inl e \<Rightarrow> Inl e | Inr ss \<Rightarrow> Inr (s # ss)))"

text \<open>\<^verbatim>\<open>Number(v)\<close>. An array or object is first turned into a string, which may throw.\<close>

fun to_number :: "runtime \<Rightarrow> jsval \<Rightarrow> error + jsnum" where
  "to_number rt JUndefined = Inr NaN"
| "to_number rt JNull = Inr (Fin 0)"
| "to_number rt (JBool b) = Inr (if b then Fin 1 else Fin 0)"
| "to_number rt (JNum n) = Inr n"
| "to_number rt (JStr s) = Inr (string_to_number s)"
| "to_number rt (JArr xs) =
     (case to_string rt (JArr xs) of Inl e \<Rightarrow> Inl e | Inr s \<Rightarrow> Inr (string_to_number s))"
| "to_number rt (JObj kvs) =
     (case to_string rt (JObj kvs) of Inl e \<Rightarrow> Inl e | Inr s \<Rightarrow> Inr (string_to_number s))"

text \<open>\<^verbatim>\<open>x * 1000\<close>: the double nearest to the exact product.\<close>

fun times_1000 :: "jsnum \<Rightarrow> jsnum" where
  "times_1000 (Fin r) = to_double (r * 1000)"
| "times_1000 n = n"

text \<open>\<^verbatim>\<open>new Date(t)\<close> for a number \<open>t\<close>: the date whose time value is \<^verbatim>\<open>TimeClip(t)\<close>, which is
  \<^verbatim>\<open>NaN\<close> (the invalid date) unless \<open>t\<close> is finite and at most \<open>8.64e15\<close> in magnitude, and
  else \<open>t\<close> rounded towards zero.\<close>

datatype date = Date jsnum

definition new_Date :: "jsnum \<Rightarrow> date" where
  "new_Date t =
     (case t of
        Fin r \<Rightarrow>
          if \<bar>r\<bar> > 8640000000000000 then Date NaN
          else Date (Fin (of_int (if 0 \<le> r then \<lfloor>r\<rfloor> else \<lceil>r\<rceil>)))
      | _ \<Rightarrow> Date NaN)"

text \<open>\<^verbatim>\<open>Date.now()\<close>: reads the clock, which counts the read.\<close>

definition Date_now :: "runtime \<Rightarrow> world \<Rightarrow> jsnum \<times> world" where
  "Date_now rt w =
     (to_double (of_int (date_now rt (clock_reads w))), w\<lparr>clock_reads := Suc (clock_reads w)\<rparr>)"

text \<open>\<^verbatim>\<open>/No transactions/i.test(s)\<close> for a string \<open>s\<close>: the pattern occurs somewhere in \<open>s\<close>,
  letters compared without case. All characters of the pattern are ASCII, and the
  canonicalisation of a regular expression never maps a character outside ASCII to one
  inside.\<close>

definition upper :: "char \<Rightarrow> char" where
  "upper c = (let n = (of_char c :: nat) in if 97 \<le> n \<and> n \<le> 122 then char_of (n - 32) else c)"

fun starts_with_ci :: "string \<Rightarrow> string \<Rightarrow> bool" where
  "starts_with_ci [] s = True"
| "starts_with_ci (p # ps) [] = False"
| "starts_with_ci (p # ps) (c # cs) = (upper p = upper c \<and> starts_with_ci ps cs)"

fun contains_ci :: "string \<Rightarrow> string \<Rightarrow> bool" where
  "contains_ci p [] = (p = [])"
| "contains_ci p (c # cs) = (starts_with_ci p (c # cs) \<or> contains_ci p cs)"

definition no_transactions_test :: "string \<Rightarrow> bool" where
  "no_transactions_test s = contains_ci ''No transactions'' s"

section \<open>The program\<close>

definition ETHERSCAN_API :: string where
  "ETHERSCAN_API = ''https://api.etherscan.io/v2/api''"

definition COVALENT_BASE :: string where
  "COVALENT_BASE = ''https://api.covalenthq.com/v1''"

subsection \<open>\<^verbatim>\<open>fetchJSON\<close>\<close>

text \<open>Sends the request (logged in the world). A rejection of \<^verbatim>\<open>fetch\<close>, of \<^verbatim>\<open>res.text()\<close>
  or of \<^verbatim>\<open>res.json()\<close> is the failure of the call; a response that is not \<^verbatim>\<open>ok\<close> fails with
  \<^verbatim>\<open>HTTP <status>: <text>\<close>.\<close>

definition fetchJSON ::
  "runtime \<Rightarrow> string \<Rightarrow> (string \<times> string) list option \<Rightarrow> world \<Rightarrow> (error + jsval) \<times> world"
where
  "fetchJSON rt url init w =
     (let w' = w\<lparr>requests := requests w @ [(url, init)]\<rparr> in
      case fetch rt (url, init) of
        Inl e \<Rightarrow> (Inl e, w')
      | Inr res \<Rightarrow>
          if \<not> ok res then
            (case body_text res of
               Inl e \<Rightarrow> (Inl e, w')
             | Inr txt \<Rightarrow> (Inl (Error (''HTTP '' @ show_int (int (status res)) @ '': '' @ txt)), w'))
          else (body_json res, w'))"

subsection \<open>\<^verbatim>\<open>normalizeTokenTx\<close>\<close>

text \<open>The normalized object. \<open>from'\<close>, \<open>to'\<close> and \<open>value'\<close> are the fields \<^verbatim>\<open>from\<close>, \<^verbatim>\<open>to\<close>
  and \<^verbatim>\<open>value\<close>.\<close>

record transfer =
  source :: string
  hash :: jsval
  time :: date
  from' :: jsval
  to' :: jsval
  tokenSymbol :: jsval
  tokenName :: jsval
  contractAddress :: jsval
  value' :: jsval
  decimals :: jsnum

text \<open>The argument of \<^verbatim>\<open>new Date\<close> (line 26). \<^verbatim>\<open>Number(tx.timeStamp)\<close> and the conversion of
  \<^verbatim>\<open>tx.block_signed_at\<close> to the string that \<^verbatim>\<open>Date.parse\<close> reads may throw; the clock is
  read only when both fields are falsy.\<close>

definition time_argument :: "runtime \<Rightarrow> jsval \<Rightarrow> world \<Rightarrow> (error + jsnum) \<times> world" where
  "time_argument rt tx w =
     (if truthy (get tx ''timeStamp'') then
        (case to_number rt (get tx ''timeStamp'') of
           Inl e \<Rightarrow> (Inl e, w)
         | Inr n \<Rightarrow> (Inr (times_1000 n), w))
      else if truthy (get tx ''block_signed_at'') then
        (case to_string rt (get tx ''block_signed_at'') of
           Inl e \<Rightarrow> (Inl e, w)
         | Inr s \<Rightarrow> (Inr (date_parse rt s), w))
      else (let (n, w') = Date_now rt w in (Inr n, w')))"

text \<open>\<^verbatim>\<open>tx.hash\<close>, the first property read, throws a \<^verbatim>\<open>TypeError\<close> when \<open>tx\<close> is \<^verbatim>\<open>null\<close> or
  \<^verbatim>\<open>undefined\<close>; on any other \<open>tx\<close> no read throws. The fields are computed in the order
  of the object literal: the time before the decimals, each of which may throw.\<close>

definition normalizeTokenTx ::
  "runtime \<Rightarrow> jsval \<Rightarrow> string \<Rightarrow> world \<Rightarrow> (error + transfer) \<times> world"
where
  "normalizeTokenTx rt tx src w =
     (if nullish tx then (Inl TypeError, w)
      else
        case time_argument rt tx w of
          (Inl e, w') \<Rightarrow> (Inl e, w')
        | (Inr t, w') \<Rightarrow>
            (case to_number rt
                    (js_or (js_or (get tx ''tokenDecimal'') (get tx ''token_decimals''))
                       (JNum (Fin 18))) of
               Inl e \<Rightarrow> (Inl e, w')
             | Inr d \<Rightarrow>
                 (Inr \<lparr>
                    source = src,
                    hash = js_or (js_or (get tx ''hash'') (get tx ''transactionHash''))
                             (get tx ''tx_hash''),
                    time = new_Date t,
                    from' = js_or (get tx ''from'') (get tx ''from_address''),
                    to' = js_or (get tx ''to'') (get tx ''to_address''),
                    tokenSymbol = js_or (get tx ''tokenSymbol'') (get tx ''token_symbol''),
                    tokenName = js_or (get tx ''tokenName'') (get tx ''token_name''),
                    contractAddress =
                      js_or (get tx ''contractAddress'') (get tx ''contract_address''),
                    value' = get tx ''value'',
                    decimals = d
                  \<rparr>, w')))"

subsection \<open>Parameters of the adapters\<close>

text \<open>\<^verbatim>\<open>{ a = 1, b = 50 } = {}\<close> as a parameter: \<^verbatim>\<open>undefined\<close> becomes the empty object,
  \<^verbatim>\<open>null\<close> cannot be destructured (a \<^verbatim>\<open>TypeError\<close>, raised before the body runs), and a
  property that is \<^verbatim>\<open>undefined\<close> takes its default.\<close>

definition destructure :: "jsval \<Rightarrow> error + jsval" where
  "destructure options =
     (let v = (if options = JUndefined then JObj [] else options) in
      if nullish v then Inl TypeError else Inr v)"

definition with_default :: "jsval \<Rightarrow> jsval \<Rightarrow> jsval" where
  "with_default v d = (if v = JUndefined then d else v)"

definition isArray :: "jsval \<Rightarrow> bool" where
  "isArray v = (case v of JArr xs \<Rightarrow> True | _ \<Rightarrow> False)"

definition isString :: "jsval \<Rightarrow> bool" where
  "isString v = (case v of JStr s \<Rightarrow> True | _ \<Rightarrow> False)"

definition elems :: "jsval \<Rightarrow> jsval list" where
  "elems v = (case v of JArr xs \<Rightarrow> xs | _ \<Rightarrow> [])"

text \<open>A template literal whose parts are fixed texts (\<open>Inl\<close>) and substituted values
  (\<open>Inr\<close>): the values are converted from left to right, and the first conversion that
  throws ends it.\<close>

fun template :: "runtime \<Rightarrow> (string + jsval) list \<Rightarrow> error + string" where
  "template rt [] = Inr []"
| "template rt (Inl s # ps) =
     (case template rt ps of Inl e \<Rightarrow> Inl e | Inr r \<Rightarrow> Inr (s @ r))"
| "template rt (Inr v # ps) =
     (case to_string rt v of
        Inl e \<Rightarrow> Inl e
      | Inr s \<Rightarrow> (case template rt ps of Inl e \<Rightarrow> Inl e | Inr r \<Rightarrow> Inr (s @ r)))"

subsection \<open>\<^verbatim>\<open>fetchEtherscanTokenTransfers\<close>\<close>

text \<open>\<^verbatim>\<open>xs.map((tx) => normalizeTokenTx(tx, src))\<close>: left to right, the first throw ends it.\<close>

fun normalize_each ::
  "runtime \<Rightarrow> string \<Rightarrow> jsval list \<Rightarrow> world \<Rightarrow> (error + transfer list) \<times> world"
where
  "normalize_each rt src [] w = (Inr [], w)"
| "normalize_each rt src (tx # txs) w =
     (case normalizeTokenTx rt tx src w of
        (Inl e, w1) \<Rightarrow> (Inl e, w1)
      | (Inr r, w1) \<Rightarrow>
          (case normalize_each rt src txs w1 of
             (Inl e, w2) \<Rightarrow> (Inl e, w2)
           | (Inr rs, w2) \<Rightarrow> (Inr (r # rs), w2)))"

text \<open>Lines 44 to 56, what the adapter does with the parsed body. \<^verbatim>\<open>json?.result\<close> is
  guarded, \<^verbatim>\<open>json.status\<close> is not and throws on \<^verbatim>\<open>null\<close>. \<^verbatim>\<open>(result || []).map\<close> is
  called on a value that is an array only when \<open>result\<close> is falsy, since an array
  \<open>result\<close> has returned before; on anything else \<^verbatim>\<open>.map\<close> is not a function. The test of
  the regular expression converts \<open>msg\<close> to a string, and so does the template of the
  error message; \<open>detail\<close> is a string or \<^verbatim>\<open>undefined\<close>.\<close>

definition etherscan_body ::
  "runtime \<Rightarrow> jsval \<Rightarrow> world \<Rightarrow> (error + transfer list) \<times> world"
where
  "etherscan_body rt json w =
     (let result = opt_get json ''result'' in
      if isArray result then normalize_each rt ''etherscan'' (elems result) w
      else if nullish json then (Inl TypeError, w)
      else if get json ''status'' = JStr ''1'' \<or> get json ''message'' = JStr ''OK'' then
        (let r = js_or result (JArr []) in
         if isArray r then normalize_each rt ''etherscan'' (elems r) w
         else (Inl TypeError, w))
      else
        let msg = js_or (opt_get json ''message'') (JStr []) in
        case to_string rt msg of
          Inl e \<Rightarrow> (Inl e, w)
        | Inr s \<Rightarrow>
            if no_transactions_test s then (Inr [], w)
            else
              let detail =
                    (if isString result then result
                     else case json_stringify rt result of
                            None \<Rightarrow> JUndefined
                          | Some d \<Rightarrow> JStr d)
              in case template rt [Inl ''Etherscan error (V2): '', Inr (js_or msg (JStr ''ERROR'')),
                                   Inl '': '', Inr detail] of
                   Inl e \<Rightarrow> (Inl e, w)
                 | Inr m \<Rightarrow> (Inl (Error m), w))"

text \<open>The URL of line 41. When the options are an array, \<^verbatim>\<open>sort\<close> is the inherited
  function \<^verbatim>\<open>Array.prototype.sort\<close>, which the template turns into its source text.\<close>

definition etherscan_url :: "config \<Rightarrow> runtime \<Rightarrow> string \<Rightarrow> jsval \<Rightarrow> error + string" where
  "etherscan_url cfg rt address opts =
     (let page = with_default (get opts ''page'') (JNum (Fin 1));
          offset = with_default (get opts ''offset'') (JNum (Fin 50));
          sort = (if isArray opts then JStr (sort_source rt)
                  else with_default (get opts ''sort'') (JStr ''desc''));
          chainId = with_default (get opts ''chainId'') (JNum (Fin 1))
      in template rt
           [Inl ETHERSCAN_API, Inl ''?chainid='', Inr chainId,
            Inl ''&module=account&action=tokentx&address='', Inl address,
            Inl ''&page='', Inr page, Inl ''&offset='', Inr offset,
            Inl ''&sort='', Inr sort, Inl ''&apikey='', Inl (the (etherscanKey cfg))])"

definition fetchEtherscanTokenTransfers ::
  "config \<Rightarrow> runtime \<Rightarrow> string \<Rightarrow> jsval \<Rightarrow> world \<Rightarrow> (error + transfer list) \<times> world"
where
  "fetchEtherscanTokenTransfers cfg rt address options w =
     (case destructure options of
        Inl e \<Rightarrow> (Inl e, w)
      | Inr opts \<Rightarrow>
          if \<not> key_set (etherscanKey cfg) then (Inl (Error ''Missing REACT_APP_ETHERSCAN_KEY''), w)
          else
            (case etherscan_url cfg rt address opts of
               Inl e \<Rightarrow> (Inl e, w)
             | Inr url \<Rightarrow>
                 (case fetchJSON rt url None w of
                    (Inl e, w1) \<Rightarrow> (Inl e, w1)
                  | (Inr json, w1) \<Rightarrow> etherscan_body rt json w1)))"

subsection \<open>\<^verbatim>\<open>fetchCovalentTokenTransfers\<close>\<close>

text \<open>\<^verbatim>\<open>for (const x of v)\<close>: an array gives its elements, a string its characters, and
  nothing else that JSON can hold is iterable.\<close>

definition iterate :: "jsval \<Rightarrow> error + jsval list" where
  "iterate v =
     (case v of
        JArr xs \<Rightarrow> Inr xs
      | JStr s \<Rightarrow> Inr (map (\<lambda>c. JStr [c]) s)
      | _ \<Rightarrow> Inl TypeError)"

text \<open>The object literal of lines 71 to 81.\<close>

definition covalent_raw :: "jsval \<Rightarrow> jsval \<Rightarrow> jsval" where
  "covalent_raw item t =
     JObj [(''tx_hash'', get item ''tx_hash''),
           (''block_signed_at'', get item ''block_signed_at''),
           (''from_address'', get t ''from_address''),
           (''to_address'', get t ''to_address''),
           (''token_symbol'', get t ''contract_ticker_symbol''),
           (''token_name'', get t ''contract_name''),
           (''contract_address'', get t ''contract_address''),
           (''value'', get t ''delta''),
           (''token_decimals'', get t ''contract_decimals'')]"

text \<open>The inner loop: \<open>flattened\<close> is the array pushed to. \<^verbatim>\<open>t.from_address\<close> throws on a
  \<open>t\<close> that is \<^verbatim>\<open>null\<close> or \<^verbatim>\<open>undefined\<close>.\<close>

fun transfers_loop ::
  "runtime \<Rightarrow> jsval \<Rightarrow> jsval list \<Rightarrow> transfer list \<Rightarrow> world \<Rightarrow> (error + transfer list) \<times> world"
where
  "transfers_loop rt item [] flattened w = (Inr flattened, w)"
| "transfers_loop rt item (t # ts) flattened w =
     (if nullish t then (Inl TypeError, w)
      else
        case normalizeTokenTx rt (covalent_raw item t) ''covalent'' w of
          (Inl e, w1) \<Rightarrow> (Inl e, w1)
        | (Inr r, w1) \<Rightarrow> transfers_loop rt item ts (flattened @ [r]) w1)"

text \<open>The outer loop. \<^verbatim>\<open>item.transfers\<close> throws on an \<open>item\<close> that is \<^verbatim>\<open>null\<close> or
  \<^verbatim>\<open>undefined\<close>.\<close>

fun items_loop ::
  "runtime \<Rightarrow> jsval list \<Rightarrow> transfer list \<Rightarrow> world \<Rightarrow> (error + transfer list) \<times> world"
where
  "items_loop rt [] flattened w = (Inr flattened, w)"
| "items_loop rt (item # items) flattened w =
     (if nullish item then (Inl TypeError, w)
      else
        case iterate (js_or (get item ''transfers'') (JArr [])) of
          Inl e \<Rightarrow> (Inl e, w)
        | Inr ts \<Rightarrow>
            (case transfers_loop rt item ts flattened w of
               (Inl e, w1) \<Rightarrow> (Inl e, w1)
             | (Inr fl, w1) \<Rightarrow> items_loop rt items fl w1))"

text \<open>Lines 65 to 84, what the adapter does with the parsed body.\<close>

definition covalent_body ::
  "runtime \<Rightarrow> jsval \<Rightarrow> world \<Rightarrow> (error + transfer list) \<times> world"
where
  "covalent_body rt json w =
     (let items = js_or (opt_get (opt_get json ''data'') ''items'') (JArr []) in
      case iterate items of
        Inl e \<Rightarrow> (Inl e, w)
      | Inr its \<Rightarrow> items_loop rt its [] w)"

definition covalent_url :: "runtime \<Rightarrow> string \<Rightarrow> jsval \<Rightarrow> error + string" where
  "covalent_url rt address opts =
     (let chainId = with_default (get opts ''chainId'') (JNum (Fin 1));
          pageSize = with_default (get opts ''pageSize'') (JNum (Fin 50))
      in template rt
           [Inl COVALENT_BASE, Inl ''/'', Inr chainId, Inl ''/address/'', Inl address,
            Inl ''/transfers_v2/?page-size='', Inr pageSize])"

definition fetchCovalentTokenTransfers ::
  "config \<Rightarrow> runtime \<Rightarrow> string \<Rightarrow> jsval \<Rightarrow> world \<Rightarrow> (error + transfer list) \<times> world"
where
  "fetchCovalentTokenTransfers cfg rt address options w =
     (case destructure options of
        Inl e \<Rightarrow> (Inl e, w)
      | Inr opts \<Rightarrow>
          if \<not> key_set (covalentKey cfg) then (Inl (Error ''Missing REACT_APP_COVALENT_KEY''), w)
          else
            (case covalent_url rt address opts of
               Inl e \<Rightarrow> (Inl e, w)
             | Inr url \<Rightarrow>
                 (let headers = [(''Authorization'', ''Bearer '' @ the (covalentKey cfg))] in
                  case fetchJSON rt url (Some headers) w of
                    (Inl e, w1) \<Rightarrow> (Inl e, w1)
                  | (Inr json, w1) \<Rightarrow> covalent_body rt json w1)))"

subsection \<open>\<^verbatim>\<open>fetchTokenTransfers\<close> and \<^verbatim>\<open>hasAnyApiKey\<close>\<close>

definition fetchTokenTransfers ::
  "config \<Rightarrow> runtime \<Rightarrow> string \<Rightarrow> jsval \<Rightarrow> world \<Rightarrow> (error + transfer list) \<times> world"
where
  "fetchTokenTransfers cfg rt address options w =
     (if key_set (covalentKey cfg) then
        (case fetchCovalentTokenTransfers cfg rt address options w of
           (Inr recs, w1) \<Rightarrow> (Inr recs, w1)
         | (Inl e, w1) \<Rightarrow>
             if key_set (etherscanKey cfg)
             then fetchEtherscanTokenTransfers cfg rt address options w1
             else (Inl e, w1))
      else if key_set (etherscanKey cfg) then fetchEtherscanTokenTransfers cfg rt address options w
      else (Inr [], w))"

definition hasAnyApiKey :: "config \<Rightarrow> bool" where
  "hasAnyApiKey cfg = (key_set (covalentKey cfg) \<or> key_set (etherscanKey cfg))"

section \<open>Vocabulary of the statements\<close>

text \<open>A value that can be converted to a string or a number without a throw: it is not an
  object with an own property \<^verbatim>\<open>toString\<close>, nor an array with such an element.\<close>

fun convertible :: "jsval \<Rightarrow> bool" where
  "convertible (JObj kvs) = (map_of kvs ''toString'' = None)"
| "convertible (JArr xs) = list_all (\<lambda>x. nullish x \<or> convertible x) xs"
| "convertible v = True"

text \<open>A raw record on which \<open>normalizeTokenTx\<close> returns a record: it is not \<^verbatim>\<open>null\<close> or
  \<^verbatim>\<open>undefined\<close>, and the time field and the decimal count that are read can be
  converted.\<close>

definition normalizable :: "jsval \<Rightarrow> bool" where
  "normalizable tx =
     (\<not> nullish tx \<and>
      (if truthy (get tx ''timeStamp'') then convertible (get tx ''timeStamp'')
       else if truthy (get tx ''block_signed_at'') then convertible (get tx ''block_signed_at'')
       else True) \<and>
      convertible (js_or (js_or (get tx ''tokenDecimal'') (get tx ''token_decimals''))
                     (JNum (Fin 18))))"

text \<open>The transport succeeded for the adapter's request and the body parsed to \<open>json\<close>: the
  key is configured, the options can be destructured and put into the URL, and the network
  answers the request the adapter builds with an \<^verbatim>\<open>ok\<close> response whose \<^verbatim>\<open>res.json()\<close> is
  \<open>json\<close>.\<close>

definition etherscan_answers :: "config \<Rightarrow> runtime \<Rightarrow> string \<Rightarrow> jsval \<Rightarrow> jsval \<Rightarrow> bool" where
  "etherscan_answers cfg rt address options json =
     (key_set (etherscanKey cfg) \<and>
      (case destructure options of
         Inl e \<Rightarrow> False
       | Inr opts \<Rightarrow>
           (case etherscan_url cfg rt address opts of
              Inl e \<Rightarrow> False
            | Inr url \<Rightarrow>
                (case fetch rt (url, None) of
                   Inl e \<Rightarrow> False
                 | Inr res \<Rightarrow> ok res \<and> body_json res = Inr json))))"

definition covalent_answers :: "config \<Rightarrow> runtime \<Rightarrow> string \<Rightarrow> jsval \<Rightarrow> jsval \<Rightarrow> bool" where
  "covalent_answers cfg rt address options json =
     (key_set (covalentKey cfg) \<and>
      (case destructure options of
         Inl e \<Rightarrow> False
       | Inr opts \<Rightarrow>
           (case covalent_url rt address opts of
              Inl e \<Rightarrow> False
            | Inr url \<Rightarrow>
                (case fetch rt (url, Some [(''Authorization'', ''Bearer '' @ the (covalentKey cfg))]) of
                   Inl e \<Rightarrow> False
                 | Inr res \<Rightarrow> ok res \<and> body_json res = Inr json))))"

text \<open>The transaction items of a Covalent body (\<^verbatim>\<open>data.items\<close>, none when it is missing or
  cannot be iterated), the transfer events of an item (\<^verbatim>\<open>item.transfers\<close>, likewise), and
  all events of a body, each with its parent item, in order.\<close>

definition items_of :: "jsval \<Rightarrow> jsval list" where
  "items_of json =
     (case iterate (js_or (opt_get (opt_get json ''data'') ''items'') (JArr [])) of
        Inl e \<Rightarrow> []
      | Inr its \<Rightarrow> its)"

definition events_of :: "jsval \<Rightarrow> jsval list" where
  "events_of item =
     (case iterate (js_or (get item ''transfers'') (JArr [])) of
        Inl e \<Rightarrow> []
      | Inr ts \<Rightarrow> ts)"

definition transfer_events :: "jsval \<Rightarrow> (jsval \<times> jsval) list" where
  "transfer_events json = concat (map (\<lambda>item. map (Pair item) (events_of item)) (items_of json))"

text \<open>A body the Covalent adapter can walk through: what it iterates is iterable, no item
  and no event is \<^verbatim>\<open>null\<close> or \<^verbatim>\<open>undefined\<close>, and the raw record built for each event can
  be normalized.\<close>

definition item_ok :: "jsval \<Rightarrow> bool" where
  "item_ok item =
     (\<not> nullish item \<and>
      (case iterate (js_or (get item ''transfers'') (JArr [])) of
         Inl e \<Rightarrow> False
       | Inr ts \<Rightarrow> list_all (\<lambda>t. \<not> nullish t \<and> normalizable (covalent_raw item t)) ts))"

definition well_shaped :: "jsval \<Rightarrow> bool" where
  "well_shaped json =
     (case iterate (js_or (opt_get (opt_get json ''data'') ''items'') (JArr [])) of
        Inl e \<Rightarrow> False
      | Inr its \<Rightarrow> list_all item_ok its)"

text \<open>\<open>r\<close> is the record of the event \<open>t\<close> of the transaction \<open>item\<close>: it has the parent's
  hash and, when the parent carries a block time, the date parsed from it, and else the
  date of some reading of the clock; the rest comes from the event.\<close>

definition event_record :: "runtime \<Rightarrow> jsval \<times> jsval \<Rightarrow> transfer \<Rightarrow> bool" where
  "event_record rt ev r =
     (source r = ''covalent'' \<and>
      hash r = get (fst ev) ''tx_hash'' \<and>
      (truthy (get (fst ev) ''block_signed_at'') \<longrightarrow>
         (\<exists>s. to_string rt (get (fst ev) ''block_signed_at'') = Inr s \<and>
              time r = new_Date (date_parse rt s))) \<and>
      (\<not> truthy (get (fst ev) ''block_signed_at'') \<longrightarrow>
         (\<exists>n. time r = new_Date (to_double (of_int (date_now rt n))))) \<and>
      from' r = get (snd ev) ''from_address'' \<and>
      to' r = get (snd ev) ''to_address'' \<and>
      tokenSymbol r = get (snd ev) ''contract_ticker_symbol'' \<and>
      tokenName r = get (snd ev) ''contract_name'' \<and>
      contractAddress r = get (snd ev) ''contract_address'' \<and>
      value' r = get (snd ev) ''delta'' \<and>
      to_number rt (js_or (get (snd ev) ''contract_decimals'') (JNum (Fin 18)))
        = Inr (decimals r))"

section \<open>Sample environments\<close>

text \<open>Concrete inputs for the examples that follow the theorems. The sample runtime knows
  the time value of one ISO date, its clock starts at that moment and advances by one
  millisecond per read; the examples consult none of \<open>num_fmt\<close>, \<open>json_stringify\<close> and \<open>sort_source\<close>.\<close>

definition sample_runtime :: "(request \<Rightarrow> error + response) \<Rightarrow> runtime" where
  "sample_runtime net =
     \<lparr> num_fmt = (\<lambda>r. []),
       date_parse = (\<lambda>s. if s = ''2023-11-14T22:13:20Z'' then Fin 1700000000000 else NaN),
       json_stringify = (\<lambda>v. None),
       sort_source = ''function sort() { [native code] }'',
       date_now = (\<lambda>n. 1700000000000 + int n),
       fetch = net \<rparr>"

text \<open>A response with a success status whose body parses to \<open>j\<close> (its text is not read
  then), and one with a failure status and the text \<open>txt\<close>.\<close>

definition replies :: "jsval \<Rightarrow> response" where
  "replies j = \<lparr> ok = True, status = 200, body_text = Inr [], body_json = Inr j \<rparr>"

definition refuses :: "nat \<Rightarrow> string \<Rightarrow> response" where
  "refuses st txt = \<lparr> ok = False, status = st, body_text = Inr txt, body_json = Inl SyntaxError \<rparr>"

text \<open>A network that answers every request with \<open>res\<close>, and one that answers the request
  sent without an \<^verbatim>\<open>init\<close> (the Etherscan adapter's) with \<open>e\<close> and the one sent with
  headers (the Covalent adapter's) with \<open>c\<close>.\<close>

definition always :: "response \<Rightarrow> request \<Rightarrow> error + response" where
  "always res rq = Inr res"


definition invalid_key_body :: jsval where
  "invalid_key_body =
     JObj [(''status'', JStr ''0''), (''message'', JStr ''NOTOK''),
           (''result'', JStr ''Invalid API Key'')]"

definition fresh_world :: world where
  "fresh_world = \<lparr> clock_reads = 0, requests = [] \<rparr>"

definition no_keys :: config where
  "no_keys = \<lparr> etherscanKey = None, covalentKey = Some [] \<rparr>"

definition etherscan_only :: config where
  "etherscan_only = \<lparr> etherscanKey = Some ''EKEY'', covalentKey = None \<rparr>"

definition covalent_only :: config where
  "covalent_only = \<lparr> etherscanKey = None, covalentKey = Some ''CKEY'' \<rparr>"


text \<open>The requests the two adapters send for the address \<^verbatim>\<open>0xabc\<close> with default options
  and the sample keys.\<close>

definition covalent_request :: request where
  "covalent_request =
     (''https://api.covalenthq.com/v1/1/address/0xabc/transfers_v2/?page-size=50'',
      Some [(''Authorization'', ''Bearer CKEY'')])"

definition etherscan_request :: request where
  "etherscan_request =
     (''https://api.etherscan.io/v2/api?chainid=1&module=account&action=tokentx&address=0xabc&page=1&offset=50&sort=desc&apikey=EKEY'',
      None)"

text \<open>A Covalent body with one transaction item that carries two transfer events, and one
  whose first item has no \<^verbatim>\<open>transfers\<close> field.\<close>

definition two_transfer_body :: jsval where
  "two_transfer_body =
     JObj [(''data'', JObj [(''items'', JArr
       [JObj [(''tx_hash'', JStr ''0xAA''),
              (''block_signed_at'', JStr ''2023-11-14T22:13:20Z''),
              (''transfers'', JArr
                 [JObj [(''from_address'', JStr ''0x1''), (''to_address'', JStr ''0x2''),
                        (''contract_ticker_symbol'', JStr ''USDT''),
                        (''delta'', JStr ''1000000''), (''contract_decimals'', JNum (Fin 6))],
                  JObj [(''from_address'', JStr ''0x3''), (''to_address'', JStr ''0x4''),
                        (''contract_ticker_symbol'', JStr ''USDT''),
                        (''delta'', JStr ''2500000''), (''contract_decimals'', JNum (Fin 6))]])]])])]"

definition sparse_body :: jsval where
  "sparse_body =
     JObj [(''data'', JObj [(''items'', JArr
       [JObj [(''tx_hash'', JStr ''0xBB'')],
        JObj [(''tx_hash'', JStr ''0xAA''),
              (''block_signed_at'', JStr ''2023-11-14T22:13:20Z''),
              (''transfers'', JArr
                 [JObj [(''from_address'', JStr ''0x1''), (''to_address'', JStr ''0x2''),
                        (''delta'', JStr ''7''), (''contract_decimals'', JNum (Fin 6))]])]])])]"

text \<open>Etherscan bodies: the answer for an address without transfers, and a classic answer
  with one transfer.\<close>

definition no_transactions_body :: jsval where
  "no_transactions_body = JObj [(''message'', JStr ''No transactions found'')]"

definition one_transfer_body :: jsval where
  "one_transfer_body =
     JObj [(''status'', JStr ''1''),
           (''result'', JArr
              [JObj [(''hash'', JStr ''0xAA''), (''timeStamp'', JStr ''1700000000''),
                     (''from'', JStr ''0x1''), (''to'', JStr ''0x2''),
                     (''tokenSymbol'', JStr ''USDT''), (''value'', JStr ''1000000''),
                     (''tokenDecimal'', JStr ''6'')]])]"

text \<open>A Covalent body whose one item has two transfer events and no block time.\<close>

definition untimed_body :: jsval where
  "untimed_body =
     JObj [(''data'', JObj [(''items'', JArr
       [JObj [(''tx_hash'', JStr ''0xAA''),
              (''transfers'', JArr
                 [JObj [(''from_address'', JStr ''0x1''), (''to_address'', JStr ''0x2''),
                        (''delta'', JStr ''1000000''), (''contract_decimals'', JNum (Fin 6))],
                  JObj [(''from_address'', JStr ''0x3''), (''to_address'', JStr ''0x4''),
                        (''delta'', JStr ''2500000''), (''contract_decimals'', JNum (Fin 6))]])]])])]"

section \<open>Doubles of integers\<close>

lemma round_half_even_int [simp]: "round_half_even (of_int n) = n"
  by (simp add: round_half_even_def)

text \<open>An integer below \<open>2 ^ 53\<close> in magnitude is a double.\<close>

lemma to_double_int:
  assumes "\<bar>n\<bar> < 2 ^ 53"
  shows "to_double (of_int n) = Fin (of_int n)"
proof (cases "n = 0")
  case True
  then show ?thesis by (simp add: to_double_def)
next
  case False
  define m where "m = \<bar>n\<bar>"
  from False have m: "0 < m" "m < 2 ^ 53" using assms by (simp_all add: m_def)
  have a: "\<bar>of_int n :: rat\<bar> = of_int m" by (simp add: m_def)
  from bitlen_bounds [OF m(1)] have lo: "2 ^ nat (bitlen m - 1) \<le> m" by simp
  from m(1) have b1: "1 \<le> bitlen m"
    by (metis bitlen_eq_zero_iff bitlen_nonneg int_one_le_iff_zero_less leD order_le_less)
  have b53: "bitlen m \<le> 53"
  proof (rule ccontr)
    assume "\<not> bitlen m \<le> 53"
    then have "53 \<le> nat (bitlen m - 1)" by simp
    then have "(2::int) ^ 53 \<le> 2 ^ nat (bitlen m - 1)" by (intro power_increasing) simp_all
    with lo m(2) show False by simp
  qed
  define k where "k = nat (53 - bitlen m)"
  have e: "ilog2 (of_int m) = bitlen m - 1"
    using m(1) by (simp add: ilog2_def)
  have mx: "max (bitlen m - 1) (- 1022) = bitlen m - 1" using b1 by simp
  have q: "pow2 (bitlen m - 1 - 52) = 1 / 2 ^ k"
    using b53 by (auto simp: pow2_def k_def nat_diff_distrib intro: arg_cong)
  have d: "(of_int m :: rat) / (1 / 2 ^ k) = of_int (m * 2 ^ k)" by simp
  have v: "of_int (round_half_even (of_int m / (1 / 2 ^ k))) * (1 / 2 ^ k) = (of_int m :: rat)"
    by (simp only: d round_half_even_int) simp
  have "(of_int m :: rat) < 2 ^ 53" using m(2)
    by (metis of_int_less_iff of_int_numeral of_int_power)
  also have "\<dots> \<le> (2::rat) ^ 1024" by (intro power_increasing) simp_all
  finally have big: "\<not> pow2 1024 \<le> (of_int m :: rat)" by (simp add: pow2_def)
  have nz: "(of_int n :: rat) \<noteq> 0" using False by simp
  have sg: "(if (of_int n :: rat) < 0 then - of_int m else of_int m) = (of_int n :: rat)"
    by (simp add: m_def)
  show ?thesis
    unfolding to_double_def Let_def a e mx q v
    using nz big sg by simp
qed

text \<open>The same as an equation to compute with: the integers below \<open>2 ^ 53\<close> first.\<close>

lemma to_double_code [code]:
  "to_double r =
     (if of_int \<lfloor>r\<rfloor> = r \<and> \<bar>r\<bar> < 9007199254740992 then Fin r
      else
        let a = \<bar>r\<bar>;
            e = max (ilog2 a) (- 1022);
            q = pow2 (e - 52);
            v = of_int (round_half_even (a / q)) * q
        in if pow2 1024 \<le> v then (if r < 0 then NegInf else PosInf)
           else Fin (if r < 0 then - v else v))"
proof (cases "of_int \<lfloor>r\<rfloor> = r \<and> \<bar>r\<bar> < 9007199254740992")
  case True
  then have fr: "of_int \<lfloor>r\<rfloor> = r" and lt: "\<bar>r\<bar> < 9007199254740992" by blast+
  define n where "n = \<lfloor>r\<rfloor>"
  from fr have r: "r = of_int n" by (simp only: n_def)
  from lt have "(of_int \<bar>n\<bar> :: rat) < of_int 9007199254740992"
    by (simp only: r of_int_abs of_int_numeral)
  then have "\<bar>n\<bar> < 9007199254740992" by (simp only: of_int_less_iff)
  then have "\<bar>n\<bar> < 2 ^ 53" by simp
  from to_double_int [OF this] have e: "to_double r = Fin r" by (simp only: r)
  show ?thesis by (subst if_P [OF True]) (rule e)
next
  case False
  then have nz: "r \<noteq> 0" by auto
  show ?thesis
    by (subst if_not_P [OF False], subst to_double_def, subst if_not_P [OF nz], rule refl)
qed

section \<open>The orchestrator\<close>




text \<open>
  C2: when the Etherscan key is configured, the Covalent key is not, and the Etherscan
  adapter fails with \<open>e\<close>, then \<open>fetchTokenTransfers\<close> fails with that same \<open>e\<close> (and leaves
  the same world).
\<close>

theorem etherscan_failure_reraised:
  assumes "key_set (etherscanKey cfg)"
    and "\<not> key_set (covalentKey cfg)"
    and "fetchEtherscanTokenTransfers cfg rt address options w = (Inl e, w1)"
  shows "fetchTokenTransfers cfg rt address options w = (Inl e, w1)"
  using assms by (simp add: fetchTokenTransfers_def)

theorem etherscan_failure_reraised_witness:
  "key_set (etherscanKey etherscan_only) \<and> \<not> key_set (covalentKey etherscan_only) \<and>
   fetchTokenTransfers etherscan_only (sample_runtime (always (refuses 403 ''Forbidden'')))
     ''0xabc'' (JObj [(''offset'', JNum (Fin 50))]) fresh_world
     = (Inl (Error ''HTTP 403: Forbidden''), \<lparr> clock_reads = 0, requests = [etherscan_request] \<rparr>)"
proof -
  have k1: "key_set (etherscanKey etherscan_only)" by code_simp
  have k2: "\<not> key_set (covalentKey etherscan_only)" by code_simp
  have f: "fetchEtherscanTokenTransfers etherscan_only
             (sample_runtime (always (refuses 403 ''Forbidden'')))
             ''0xabc'' (JObj [(''offset'', JNum (Fin 50))]) fresh_world
           = (Inl (Error ''HTTP 403: Forbidden''),
              \<lparr> clock_reads = 0, requests = [etherscan_request] \<rparr>)"
    by code_simp
  from etherscan_failure_reraised [OF k1 k2 f] k1 k2 show ?thesis by simp
qed

text \<open>
  C3: when neither key is configured, \<open>fetchTokenTransfers\<close> returns the empty list, for
  every address and options, and leaves the world as it was: no request is sent (and the
  clock is not read).
\<close>

theorem no_keys_empty_list_no_request:
  assumes "\<not> key_set (etherscanKey cfg)"
    and "\<not> key_set (covalentKey cfg)"
  shows "fetchTokenTransfers cfg rt address options w = (Inr [], w)"
  using assms by (simp add: fetchTokenTransfers_def)

theorem no_keys_empty_list_no_request_witness:
  "\<not> key_set (etherscanKey no_keys) \<and> \<not> key_set (covalentKey no_keys) \<and>
   fetchTokenTransfers no_keys (sample_runtime (always (replies (JArr [])))) ''0xabc'' JNull
     fresh_world = (Inr [], fresh_world)"
proof -
  have k1: "\<not> key_set (etherscanKey no_keys)" by code_simp
  have k2: "\<not> key_set (covalentKey no_keys)" by code_simp
  from no_keys_empty_list_no_request [OF k1 k2] k1 k2 show ?thesis by simp
qed

section \<open>Normalization\<close>

subsection \<open>Decimal digit strings\<close>

lemma digit_of_base10: "is_digit 10 c \<Longrightarrow> \<exists>d. digit_of c = Some d \<and> d < 10"
  by (auto simp: is_digit_def split: option.splits)

lemma digit_not_ws: "is_digit 10 c \<Longrightarrow> \<not> is_ws c"
  by (auto simp: is_digit_def is_ws_def digit_of_def Let_def split: if_splits option.splits)

lemma digit_not_special:
  "is_digit 10 c \<Longrightarrow>
     c \<noteq> CHR ''x'' \<and> c \<noteq> CHR ''X'' \<and> c \<noteq> CHR ''o'' \<and> c \<noteq> CHR ''O'' \<and> c \<noteq> CHR ''b'' \<and>
     c \<noteq> CHR ''B'' \<and> c \<noteq> CHR ''-'' \<and> c \<noteq> CHR ''+'' \<and> c \<noteq> CHR ''I''"
  by (auto simp: is_digit_def digit_of_def Let_def split: if_splits option.splits)

lemma digits_val_snoc:
  "digits_val b (ds @ [c]) = int b * digits_val b ds + int (the (digit_of c))"
  by (simp add: digits_val_def)

lemma digits_val_bounds:
  "list_all (is_digit 10) ds \<Longrightarrow> 0 \<le> digits_val 10 ds \<and> digits_val 10 ds < 10 ^ length ds"
proof (induction ds rule: rev_induct)
  case Nil
  show ?case by (simp add: digits_val_def)
next
  case (snoc c ds)
  then have ih: "0 \<le> digits_val 10 ds" "digits_val 10 ds < 10 ^ length ds" by simp_all
  from snoc.prems obtain d where d: "digit_of c = Some d" "d < 10"
    using digit_of_base10 by auto
  from ih(2) have "digits_val 10 ds + 1 \<le> 10 ^ length ds" by simp
  then have "10 * digits_val 10 ds + 10 \<le> 10 * 10 ^ length ds" by simp
  with ih(1) d show ?case by (simp add: digits_val_snoc)
qed

lemma digits_val_safe:
  assumes "list_all (is_digit 10) ds" and "length ds \<le> 15"
  shows "0 \<le> digits_val 10 ds" and "digits_val 10 ds < 10 ^ 15"
proof -
  from digits_val_bounds [OF assms(1)]
  have lo: "0 \<le> digits_val 10 ds" and up: "digits_val 10 ds < 10 ^ length ds" by simp_all
  have "(10 :: int) ^ length ds \<le> 10 ^ 15"
    using assms(2) by (intro power_increasing) simp_all
  with up show "digits_val 10 ds < 10 ^ 15" by simp
  from lo show "0 \<le> digits_val 10 ds" .
qed

lemma trim_digits:
  assumes "ds \<noteq> []" and "list_all (is_digit 10) ds"
  shows "trim ds = ds"
proof -
  from assms have "is_digit 10 (hd ds)" and "is_digit 10 (last ds)"
    by (simp_all add: list_all_iff)
  then have h: "\<not> is_ws (hd ds)" and l: "\<not> is_ws (last ds)"
    by (simp_all add: digit_not_ws)
  from h have 1: "dropWhile is_ws ds = ds" by (simp add: dropWhile_eq_self_iff)
  from l assms(1) have 2: "dropWhile is_ws (rev ds) = rev ds"
    by (simp add: dropWhile_eq_self_iff hd_rev)
  show ?thesis by (simp add: trim_def 1 2)
qed

lemma unsigned_decimal_digits:
  assumes "ds \<noteq> []" and "list_all (is_digit 10) ds"
  shows "unsigned_decimal ds = Some (of_int (digits_val 10 ds))"
proof -
  from assms(2) have t: "takeWhile (is_digit 10) ds = ds" and d: "dropWhile (is_digit 10) ds = []"
    by (simp_all add: list_all_iff takeWhile_eq_all_conv)
  show ?thesis
    using assms(1)
    by (simp add: unsigned_decimal_def t d exponent_part_def pow10_def digits_val_def)
qed

text \<open>A string of one to fifteen decimal digits denotes an integer that is a double.\<close>

lemma string_to_number_digits:
  assumes "ds \<noteq> []" and "list_all (is_digit 10) ds" and "length ds \<le> 15"
  shows "string_to_number ds = Fin (of_int (digits_val 10 ds))"
proof -
  from assms obtain c cs where ds: "ds = c # cs" by (cases ds) auto
  with assms(2) have c: "is_digit 10 c" by simp
  have p: "take 2 ds \<noteq> ''0x'' \<and> take 2 ds \<noteq> ''0X'' \<and> take 2 ds \<noteq> ''0o'' \<and> take 2 ds \<noteq> ''0O''
           \<and> take 2 ds \<noteq> ''0b'' \<and> take 2 ds \<noteq> ''0B''"
  proof (cases cs)
    case Nil
    with ds show ?thesis by simp
  next
    case (Cons c' cs')
    with ds assms(2) have "is_digit 10 c'" by simp
    from digit_not_special [OF this] ds Cons show ?thesis by simp
  qed
  have i: "ds \<noteq> ''Infinity''"
    using digit_not_special [OF c] ds by auto
  from digits_val_safe [OF assms(2,3)] have "\<bar>digits_val 10 ds\<bar> < 2 ^ 53" by simp
  from to_double_int [OF this]
  have s: "signed_decimal ds = Fin (of_int (digits_val 10 ds))"
    using digit_not_special [OF c] i unsigned_decimal_digits [OF assms(1,2)]
    by (simp add: signed_decimal_def ds)
  show ?thesis
    using p s assms(1) by (simp add: string_to_number_def trim_digits [OF assms(1,2)])
qed

subsection \<open>Conversions that throw\<close>

lemma to_string_convertible:
  "(convertible v \<longrightarrow> (\<exists>s. to_string rt v = Inr s)) \<and>
   (\<not> convertible v \<longrightarrow> to_string rt v = Inl TypeError)"
  "(list_all (\<lambda>x. nullish x \<or> convertible x) xs \<longrightarrow> (\<exists>ss. to_strings rt xs = Inr ss)) \<and>
   (\<not> list_all (\<lambda>x. nullish x \<or> convertible x) xs \<longrightarrow> to_strings rt xs = Inl TypeError)"
proof (induction rt v and rt xs rule: to_string_to_strings.induct)
  case (6 rt xs)
  then show ?case by auto
next
  case (9 rt x xs)
  then show ?case by (auto simp: nullish_def)
qed simp_all

lemma to_string_returns: "convertible v \<Longrightarrow> \<exists>s. to_string rt v = Inr s"
  using to_string_convertible(1) by blast

lemma to_string_throws: "\<not> convertible v \<Longrightarrow> to_string rt v = Inl TypeError"
  using to_string_convertible(1) by blast

lemma to_number_returns: "convertible v \<Longrightarrow> \<exists>n. to_number rt v = Inr n"
  using to_string_returns [of v rt] by (cases v) auto

lemma to_number_throws: "\<not> convertible v \<Longrightarrow> to_number rt v = Inl TypeError"
  using to_string_throws [of v rt] by (cases v) auto

subsection \<open>What \<open>normalizeTokenTx\<close> returns\<close>

lemma time_argument_returns:
  assumes "if truthy (get tx ''timeStamp'') then convertible (get tx ''timeStamp'')
           else if truthy (get tx ''block_signed_at'') then convertible (get tx ''block_signed_at'')
           else True"
  shows "\<exists>t w'. time_argument rt tx w = (Inr t, w')"
proof (cases "truthy (get tx ''timeStamp'')")
  case True
  with assms to_number_returns [of "get tx ''timeStamp''" rt] show ?thesis
    by (auto simp: time_argument_def)
next
  case False
  show ?thesis
  proof (cases "truthy (get tx ''block_signed_at'')")
    case True
    with False assms to_string_returns [of "get tx ''block_signed_at''" rt] show ?thesis
      by (auto simp: time_argument_def)
  next
    case f: False
    with False show ?thesis by (simp add: time_argument_def Date_now_def)
  qed
qed

lemma time_argument_throws:
  assumes "\<not> (if truthy (get tx ''timeStamp'') then convertible (get tx ''timeStamp'')
              else if truthy (get tx ''block_signed_at'')
              then convertible (get tx ''block_signed_at'') else True)"
  shows "time_argument rt tx w = (Inl TypeError, w)"
  using assms to_number_throws [of "get tx ''timeStamp''" rt]
    to_string_throws [of "get tx ''block_signed_at''" rt]
  by (auto simp: time_argument_def split: if_splits)

lemma normalizeTokenTx_returns:
  assumes "normalizable tx"
  shows "\<exists>r w'. normalizeTokenTx rt tx src w = (Inr r, w')"
proof -
  from assms have nn: "\<not> nullish tx"
    and c: "convertible (js_or (js_or (get tx ''tokenDecimal'') (get tx ''token_decimals''))
                           (JNum (Fin 18)))"
    by (simp_all add: normalizable_def)
  from assms time_argument_returns [of tx rt w]
  obtain t w' where t: "time_argument rt tx w = (Inr t, w')"
    by (auto simp: normalizable_def)
  from to_number_returns [OF c, of rt] obtain d
    where d: "to_number rt (js_or (js_or (get tx ''tokenDecimal'') (get tx ''token_decimals''))
                              (JNum (Fin 18))) = Inr d" by blast
  from nn t d show ?thesis by (simp add: normalizeTokenTx_def)
qed

lemma normalizeTokenTx_throws:
  assumes "\<not> normalizable tx"
  shows "fst (normalizeTokenTx rt tx src w) = Inl TypeError"
proof (cases "nullish tx")
  case True
  then show ?thesis by (simp add: normalizeTokenTx_def)
next
  case nn: False
  show ?thesis
  proof (cases "if truthy (get tx ''timeStamp'') then convertible (get tx ''timeStamp'')
                else if truthy (get tx ''block_signed_at'')
                then convertible (get tx ''block_signed_at'') else True")
    case False
    from time_argument_throws [OF False, of rt w] nn show ?thesis
      by (simp add: normalizeTokenTx_def)
  next
    case True
    with assms nn
    have "\<not> convertible (js_or (js_or (get tx ''tokenDecimal'') (get tx ''token_decimals''))
                            (JNum (Fin 18)))"
      by (simp add: normalizable_def)
    from to_number_throws [OF this, of rt]
    have d: "to_number rt (js_or (js_or (get tx ''tokenDecimal'') (get tx ''token_decimals''))
                             (JNum (Fin 18))) = Inl TypeError" .
    from time_argument_returns [OF True, of rt w]
    obtain t w' where "time_argument rt tx w = (Inr t, w')" by blast
    with d nn show ?thesis by (simp add: normalizeTokenTx_def)
  qed
qed

lemma normalizeTokenTx_fields:
  assumes "normalizeTokenTx rt tx src w = (Inr r, w')"
  shows "source r = src"
    and "hash r = js_or (js_or (get tx ''hash'') (get tx ''transactionHash'')) (get tx ''tx_hash'')"
    and "from' r = js_or (get tx ''from'') (get tx ''from_address'')"
    and "to' r = js_or (get tx ''to'') (get tx ''to_address'')"
    and "value' r = get tx ''value''"
    and "to_number rt (js_or (js_or (get tx ''tokenDecimal'') (get tx ''token_decimals''))
                         (JNum (Fin 18))) = Inr (decimals r)"
    and "tokenSymbol r = js_or (get tx ''tokenSymbol'') (get tx ''token_symbol'')"
    and "tokenName r = js_or (get tx ''tokenName'') (get tx ''token_name'')"
    and "contractAddress r = js_or (get tx ''contractAddress'') (get tx ''contract_address'')"
  using assms
  by (auto simp: normalizeTokenTx_def split: if_splits prod.splits sum.splits)

lemma normalizeTokenTx_time:
  assumes "normalizeTokenTx rt tx src w = (Inr r, w')"
  shows "truthy (get tx ''timeStamp'') \<Longrightarrow>
           (\<exists>n. to_number rt (get tx ''timeStamp'') = Inr n \<and> time r = new_Date (times_1000 n))
           \<and> w' = w"
    and "\<not> truthy (get tx ''timeStamp'') \<Longrightarrow> truthy (get tx ''block_signed_at'') \<Longrightarrow>
           (\<exists>s. to_string rt (get tx ''block_signed_at'') = Inr s \<and>
                time r = new_Date (date_parse rt s)) \<and> w' = w"
    and "\<not> truthy (get tx ''timeStamp'') \<Longrightarrow> \<not> truthy (get tx ''block_signed_at'') \<Longrightarrow>
           time r = new_Date (to_double (of_int (date_now rt (clock_reads w)))) \<and>
           w' = w\<lparr>clock_reads := Suc (clock_reads w)\<rparr>"
  using assms
  by (auto simp: normalizeTokenTx_def time_argument_def Date_now_def
           split: if_splits prod.splits sum.splits)

text \<open>
  C6: for every raw record on which \<open>normalizeTokenTx\<close> returns a record, the record's
  \<open>value\<close> is the raw record's \<open>value\<close> property itself: a string stays the same string and
  is not turned into a number. On every other raw record (\<^verbatim>\<open>null\<close>, \<^verbatim>\<open>undefined\<close>, or one
  whose time or decimal field cannot be converted) the call throws and there is no
  normalized record. The example is the thirty-digit amount
  \<^verbatim>\<open>123456789012345678901234567890\<close>.
\<close>

theorem raw_value_unchanged:
  "(normalizable tx \<longrightarrow>
      (\<exists>r w'. normalizeTokenTx rt tx src w = (Inr r, w') \<and> value' r = get tx ''value'')) \<and>
   (\<not> normalizable tx \<longrightarrow> fst (normalizeTokenTx rt tx src w) = Inl TypeError)"
proof -
  have "\<exists>r w'. normalizeTokenTx rt tx src w = (Inr r, w') \<and> value' r = get tx ''value''"
    if "normalizable tx"
  proof -
    from normalizeTokenTx_returns [OF that]
    obtain r w' where n: "normalizeTokenTx rt tx src w = (Inr r, w')" by blast
    from normalizeTokenTx_fields(5) [OF n] n show ?thesis by simp
  qed
  with normalizeTokenTx_throws [of tx rt src w] show ?thesis by blast
qed

theorem raw_value_unchanged_witness:
  "normalizable (JObj [(''hash'', JStr ''0xAA''), (''timeStamp'', JStr ''1700000000''),
                      (''value'', JStr ''123456789012345678901234567890'')]) \<and>
   (\<exists>r w'. normalizeTokenTx (sample_runtime (always (replies JNull)))
              (JObj [(''hash'', JStr ''0xAA''), (''timeStamp'', JStr ''1700000000''),
                     (''value'', JStr ''123456789012345678901234567890'')])
              ''etherscan'' fresh_world = (Inr r, w') \<and>
            value' r = JStr ''123456789012345678901234567890'') \<and>
   \<not> normalizable (JObj [(''timeStamp'', JObj [(''toString'', JNum (Fin 1))]),
                        (''value'', JStr ''5'')]) \<and>
   fst (normalizeTokenTx (sample_runtime (always (replies JNull)))
          (JObj [(''timeStamp'', JObj [(''toString'', JNum (Fin 1))]), (''value'', JStr ''5'')])
          ''etherscan'' fresh_world) = Inl TypeError"
proof -
  have h: "normalizable (JObj [(''hash'', JStr ''0xAA''), (''timeStamp'', JStr ''1700000000''),
                              (''value'', JStr ''123456789012345678901234567890'')])"
    by code_simp
  have g: "\<not> normalizable (JObj [(''timeStamp'', JObj [(''toString'', JNum (Fin 1))]),
                                 (''value'', JStr ''5'')])"
    by code_simp
  from raw_value_unchanged [of "JObj [(''hash'', JStr ''0xAA''), (''timeStamp'', JStr ''1700000000''),
                              (''value'', JStr ''123456789012345678901234567890'')]"
      "sample_runtime (always (replies JNull))" "''etherscan''" fresh_world] h
  have a: "\<exists>r w'. normalizeTokenTx (sample_runtime (always (replies JNull)))
              (JObj [(''hash'', JStr ''0xAA''), (''timeStamp'', JStr ''1700000000''),
                     (''value'', JStr ''123456789012345678901234567890'')])
              ''etherscan'' fresh_world = (Inr r, w') \<and>
            value' r = JStr ''123456789012345678901234567890''"
    by simp
  from raw_value_unchanged [of "JObj [(''timeStamp'', JObj [(''toString'', JNum (Fin 1))]),
                                 (''value'', JStr ''5'')]"
      "sample_runtime (always (replies JNull))" "''etherscan''" fresh_world] g
  have b: "fst (normalizeTokenTx (sample_runtime (always (replies JNull)))
          (JObj [(''timeStamp'', JObj [(''toString'', JNum (Fin 1))]), (''value'', JStr ''5'')])
          ''etherscan'' fresh_world) = Inl TypeError"
    by blast
  from h a g b show ?thesis by blast
qed

text \<open>
  C7, as the specification states it: for every raw record the normalized \<open>decimals\<close> is
  a non-negative integer, and a decimal count the provider supplies, zero included, is
  the value used.

  The code applies \<^verbatim>\<open>Number\<close> to \<^verbatim>\<open>tx.tokenDecimal || tx.token_decimals || 18\<close> and checks
  nothing. A record with \<^verbatim>\<open>tokenDecimal: "-5"\<close> gets \<open>decimals = -5\<close>, and a record with
  the number zero as \<^verbatim>\<open>token_decimals\<close> (as the Covalent adapter passes it on) gets 18,
  since \<^verbatim>\<open>0\<close> is falsy.
\<close>

theorem decimals_non_negative_counterexample:
  "normalizeTokenTx (sample_runtime (always (replies JNull)))
     (JObj [(''timeStamp'', JStr ''1700000000''), (''tokenDecimal'', JStr ''-5'')])
     ''etherscan'' fresh_world
   = (Inr \<lparr> source = ''etherscan'', hash = JUndefined, time = Date (Fin 1700000000000),
            from' = JUndefined, to' = JUndefined, tokenSymbol = JUndefined,
            tokenName = JUndefined, contractAddress = JUndefined, value' = JUndefined,
            decimals = Fin (- 5) \<rparr>, fresh_world) \<and>
   normalizeTokenTx (sample_runtime (always (replies JNull)))
     (JObj [(''timeStamp'', JStr ''1700000000''), (''token_decimals'', JNum (Fin 0))])
     ''covalent'' fresh_world
   = (Inr \<lparr> source = ''covalent'', hash = JUndefined, time = Date (Fin 1700000000000),
            from' = JUndefined, to' = JUndefined, tokenSymbol = JUndefined,
            tokenName = JUndefined, contractAddress = JUndefined, value' = JUndefined,
            decimals = Fin 18 \<rparr>, fresh_world)"
  by code_simp

text \<open>
  C7, amended: for every raw record on which \<open>normalizeTokenTx\<close> returns a record, the
  record's \<open>decimals\<close> is \<^verbatim>\<open>Number(tx.tokenDecimal || tx.token_decimals || 18)\<close>, unchecked.
  It is 18 when the provider omits both decimal-count fields; when \<open>tokenDecimal\<close> is a
  string of one to fifteen decimal digits (\<^verbatim>\<open>"0"\<close> included) it is the non-negative
  integer the string denotes; and when \<open>tokenDecimal\<close> is omitted and \<open>token_decimals\<close> is a
  positive integer below \<open>2 ^ 53\<close> it is that integer. Nothing is said of a numeric zero.
\<close>

theorem decimals_default_and_supplied:
  assumes "normalizable tx"
  shows "\<exists>r w'. normalizeTokenTx rt tx src w = (Inr r, w') \<and>
           to_number rt (js_or (js_or (get tx ''tokenDecimal'') (get tx ''token_decimals''))
                           (JNum (Fin 18))) = Inr (decimals r) \<and>
           (get tx ''tokenDecimal'' = JUndefined \<and> get tx ''token_decimals'' = JUndefined
              \<longrightarrow> decimals r = Fin 18) \<and>
           (\<forall>ds. get tx ''tokenDecimal'' = JStr ds \<and> ds \<noteq> [] \<and> list_all (is_digit 10) ds \<and>
                 length ds \<le> 15
              \<longrightarrow> decimals r = Fin (of_int (digits_val 10 ds)) \<and> 0 \<le> digits_val 10 ds) \<and>
           (\<forall>n. get tx ''tokenDecimal'' = JUndefined \<and>
                get tx ''token_decimals'' = JNum (Fin (of_nat n)) \<and> 0 < n \<and> n < 2 ^ 53
              \<longrightarrow> decimals r = Fin (of_nat n))"
proof -
  from normalizeTokenTx_returns [OF assms]
  obtain r w' where n: "normalizeTokenTx rt tx src w = (Inr r, w')" by blast
  note d = normalizeTokenTx_fields(6) [OF n]
  have 1: "get tx ''tokenDecimal'' = JUndefined \<and> get tx ''token_decimals'' = JUndefined
             \<longrightarrow> decimals r = Fin 18"
    using d by (auto simp: js_or_def)
  have 2: "\<forall>ds. get tx ''tokenDecimal'' = JStr ds \<and> ds \<noteq> [] \<and> list_all (is_digit 10) ds \<and>
                length ds \<le> 15
             \<longrightarrow> decimals r = Fin (of_int (digits_val 10 ds)) \<and> 0 \<le> digits_val 10 ds"
    using d by (auto simp: js_or_def string_to_number_digits digits_val_bounds)
  have 3: "\<forall>n. get tx ''tokenDecimal'' = JUndefined \<and>
               get tx ''token_decimals'' = JNum (Fin (of_nat n)) \<and> 0 < n \<and> n < 2 ^ 53
             \<longrightarrow> decimals r = Fin (of_nat n)"
    using d by (auto simp: js_or_def)
  from n d 1 2 3 show ?thesis by blast
qed

theorem decimals_default_and_supplied_witness:
  "normalizable (JObj [(''tokenDecimal'', JStr ''6'')]) \<and> normalizable (JObj []) \<and>
   normalizable (JObj [(''token_decimals'', JNum (Fin 8))]) \<and>
   decimals (projr (fst (normalizeTokenTx (sample_runtime (always (replies JNull)))
                          (JObj [(''tokenDecimal'', JStr ''6'')]) ''etherscan'' fresh_world)))
     = Fin 6 \<and>
   decimals (projr (fst (normalizeTokenTx (sample_runtime (always (replies JNull)))
                          (JObj []) ''etherscan'' fresh_world)))
     = Fin 18 \<and>
   decimals (projr (fst (normalizeTokenTx (sample_runtime (always (replies JNull)))
                          (JObj [(''token_decimals'', JNum (Fin 8))]) ''covalent'' fresh_world)))
     = Fin 8"
proof -
  have h1: "normalizable (JObj [(''tokenDecimal'', JStr ''6'')])" by code_simp
  have h2: "normalizable (JObj [])" by code_simp
  have h3: "normalizable (JObj [(''token_decimals'', JNum (Fin 8))])" by code_simp
  have d6: "list_all (is_digit 10) ''6''" "digits_val 10 ''6'' = 6"
    by (simp_all add: is_digit_def digit_of_def digits_val_def)
  from decimals_default_and_supplied [OF h1, of "sample_runtime (always (replies JNull))"
      "''etherscan''" fresh_world]
  have a: "decimals (projr (fst (normalizeTokenTx (sample_runtime (always (replies JNull)))
                          (JObj [(''tokenDecimal'', JStr ''6'')]) ''etherscan'' fresh_world)))
     = Fin 6"
    using d6 by auto
  from decimals_default_and_supplied [OF h2, of "sample_runtime (always (replies JNull))"
      "''etherscan''" fresh_world]
  have b: "decimals (projr (fst (normalizeTokenTx (sample_runtime (always (replies JNull)))
                          (JObj []) ''etherscan'' fresh_world)))
     = Fin 18"
    by auto
  from decimals_default_and_supplied [OF h3, of "sample_runtime (always (replies JNull))"
      "''covalent''" fresh_world]
  obtain r w' where r: "normalizeTokenTx (sample_runtime (always (replies JNull)))
                          (JObj [(''token_decimals'', JNum (Fin 8))]) ''covalent'' fresh_world
                        = (Inr r, w')"
    and i: "\<forall>n. get (JObj [(''token_decimals'', JNum (Fin 8))]) ''tokenDecimal'' = JUndefined \<and>
               get (JObj [(''token_decimals'', JNum (Fin 8))]) ''token_decimals''
                 = JNum (Fin (of_nat n)) \<and> 0 < n \<and> n < 2 ^ 53
             \<longrightarrow> decimals r = Fin (of_nat n)"
    by blast
  from i [rule_format, of 8] have "decimals r = Fin 8" by simp
  with r have c: "decimals (projr (fst (normalizeTokenTx (sample_runtime (always (replies JNull)))
                          (JObj [(''token_decimals'', JNum (Fin 8))]) ''covalent'' fresh_world)))
     = Fin 8"
    by simp
  from h1 h2 h3 a b c show ?thesis by simp
qed

text \<open>
  C8, as the specification states it: a Unix-seconds timestamp becomes seconds times 1000,
  and a record whose time encoding cannot be parsed gets the current time.

  The second half fails. A record with \<^verbatim>\<open>timeStamp: "abc"\<close> gets the invalid date (time
  value \<^verbatim>\<open>NaN\<close>): \<^verbatim>\<open>Number("abc") * 1000\<close> is \<^verbatim>\<open>NaN\<close>, and the clock is not read at all (the
  world is unchanged), while the current time of the sample runtime is 1700000000000.
\<close>

theorem unparseable_time_counterexample:
  "normalizeTokenTx (sample_runtime (always (replies JNull)))
     (JObj [(''hash'', JStr ''0xAA''), (''timeStamp'', JStr ''abc'')])
     ''etherscan'' fresh_world
   = (Inr \<lparr> source = ''etherscan'', hash = JStr ''0xAA'', time = Date NaN,
            from' = JUndefined, to' = JUndefined, tokenSymbol = JUndefined,
            tokenName = JUndefined, contractAddress = JUndefined, value' = JUndefined,
            decimals = Fin 18 \<rparr>, fresh_world) \<and>
   date_now (sample_runtime (always (replies JNull))) (clock_reads fresh_world) = 1700000000000"
  by code_simp

text \<open>
  C8, amended: for every raw record on which \<open>normalizeTokenTx\<close> returns a record and
  whose \<open>timeStamp\<close> is a string of one to twelve decimal digits (Unix seconds), the
  normalized \<open>time\<close> is the date with the time value seconds times 1000. In general a truthy
  \<open>timeStamp\<close> gives \<^verbatim>\<open>new Date(Number(timeStamp) * 1000)\<close>, the product rounded as a double
  and then cut to whole milliseconds, and, when \<open>timeStamp\<close> is absent or falsy, a truthy
  \<open>block_signed_at\<close> gives \<^verbatim>\<open>new Date(Date.parse(block_signed_at))\<close>; either is the invalid
  date when the field does not parse, and the clock is not read. The time defaults to the
  current time only when both fields are absent or falsy.
\<close>

theorem time_from_timestamp_or_clock:
  assumes "normalizable tx"
  shows "\<exists>r w'. normalizeTokenTx rt tx src w = (Inr r, w') \<and>
           (\<forall>ds. get tx ''timeStamp'' = JStr ds \<and> ds \<noteq> [] \<and> list_all (is_digit 10) ds \<and>
                 length ds \<le> 12
              \<longrightarrow> time r = Date (Fin (of_int (digits_val 10 ds * 1000))) \<and> w' = w) \<and>
           (truthy (get tx ''timeStamp'')
              \<longrightarrow> (\<exists>n. to_number rt (get tx ''timeStamp'') = Inr n \<and>
                       time r = new_Date (times_1000 n)) \<and> w' = w) \<and>
           (\<not> truthy (get tx ''timeStamp'') \<and> truthy (get tx ''block_signed_at'')
              \<longrightarrow> (\<exists>s. to_string rt (get tx ''block_signed_at'') = Inr s \<and>
                       time r = new_Date (date_parse rt s)) \<and> w' = w) \<and>
           (\<not> truthy (get tx ''timeStamp'') \<and> \<not> truthy (get tx ''block_signed_at'')
              \<longrightarrow> time r = new_Date (to_double (of_int (date_now rt (clock_reads w)))) \<and>
                  w' = w\<lparr>clock_reads := Suc (clock_reads w)\<rparr>)"
proof -
  from normalizeTokenTx_returns [OF assms]
  obtain r w' where n: "normalizeTokenTx rt tx src w = (Inr r, w')" by blast
  note t = normalizeTokenTx_time [OF n]
  have 1: "time r = Date (Fin (of_int (digits_val 10 ds * 1000))) \<and> w' = w"
    if ds: "get tx ''timeStamp'' = JStr ds" "ds \<noteq> []" "list_all (is_digit 10) ds" "length ds \<le> 12"
    for ds
  proof -
    from ds(1,2) have tr: "truthy (get tx ''timeStamp'')" by simp
    from ds(4) have l15: "length ds \<le> 15" by simp
    from digits_val_bounds [OF ds(3)]
    have lo: "0 \<le> digits_val 10 ds" and up: "digits_val 10 ds < 10 ^ length ds" by simp_all
    have "(10 :: int) ^ length ds \<le> 10 ^ 12"
      using ds(4) by (intro power_increasing) simp_all
    with up have "digits_val 10 ds < 1000000000000" by simp
    define x where "x = digits_val 10 ds * 1000"
    with lo \<open>digits_val 10 ds < 1000000000000\<close>
    have x: "0 \<le> x" "x < 1000000000000000" by simp_all
    then have "\<bar>x\<bar> < 2 ^ 53" by simp
    from to_double_int [OF this] have p: "to_double (of_int x) = Fin (of_int x)" .
    from x have "new_Date (Fin (of_int x)) = Date (Fin (of_int x))"
      by (simp add: new_Date_def)
    with p have d: "new_Date (to_double (of_int x)) = Date (Fin (of_int x))" by simp
    have m: "(of_int (digits_val 10 ds) :: rat) * 1000 = of_int x" by (simp add: x_def)
    from t(1) [OF tr] obtain n where n: "to_number rt (get tx ''timeStamp'') = Inr n"
      and tm: "time r = new_Date (times_1000 n)" and w: "w' = w" by blast
    from n have "n = Fin (of_int (digits_val 10 ds))"
      by (simp add: ds(1) string_to_number_digits [OF ds(2,3) l15])
    then have "times_1000 n = to_double (of_int x)" by (simp only: times_1000.simps m)
    with tm d w show ?thesis by (simp only: x_def)
  qed
  from n 1 t show ?thesis by blast
qed

theorem time_from_timestamp_or_clock_witness:
  "normalizable (JObj [(''timeStamp'', JStr ''1700000000'')]) \<and> normalizable (JObj []) \<and>
   time (projr (fst (normalizeTokenTx (sample_runtime (always (replies JNull)))
                       (JObj [(''timeStamp'', JStr ''1700000000'')]) ''etherscan'' fresh_world)))
     = Date (Fin 1700000000000) \<and>
   time (projr (fst (normalizeTokenTx (sample_runtime (always (replies JNull)))
                       (JObj [(''timeStamp'', JStr ''1.001'')]) ''etherscan'' fresh_world)))
     = Date (Fin 1000) \<and>
   normalizeTokenTx (sample_runtime (always (replies JNull))) (JObj []) ''etherscan'' fresh_world
     = (Inr \<lparr> source = ''etherscan'', hash = JUndefined, time = Date (Fin 1700000000000),
              from' = JUndefined, to' = JUndefined, tokenSymbol = JUndefined,
              tokenName = JUndefined, contractAddress = JUndefined, value' = JUndefined,
              decimals = Fin 18 \<rparr>, \<lparr> clock_reads = 1, requests = [] \<rparr>)"
proof -
  have h1: "normalizable (JObj [(''timeStamp'', JStr ''1700000000'')])" by code_simp
  have h2: "normalizable (JObj [])" by code_simp
  have d: "list_all (is_digit 10) ''1700000000''" "digits_val 10 ''1700000000'' = 1700000000"
    by (simp_all add: is_digit_def digit_of_def digits_val_def)
  from time_from_timestamp_or_clock [OF h1, of "sample_runtime (always (replies JNull))"
      "''etherscan''" fresh_world]
  have a: "time (projr (fst (normalizeTokenTx (sample_runtime (always (replies JNull)))
                       (JObj [(''timeStamp'', JStr ''1700000000'')]) ''etherscan'' fresh_world)))
     = Date (Fin 1700000000000)"
    using d by auto
  have c: "time (projr (fst (normalizeTokenTx (sample_runtime (always (replies JNull)))
                       (JObj [(''timeStamp'', JStr ''1.001'')]) ''etherscan'' fresh_world)))
     = Date (Fin 1000)"
    by code_simp
  have b: "normalizeTokenTx (sample_runtime (always (replies JNull))) (JObj []) ''etherscan''
             fresh_world
     = (Inr \<lparr> source = ''etherscan'', hash = JUndefined, time = Date (Fin 1700000000000),
              from' = JUndefined, to' = JUndefined, tokenSymbol = JUndefined,
              tokenName = JUndefined, contractAddress = JUndefined, value' = JUndefined,
              decimals = Fin 18 \<rparr>, \<lparr> clock_reads = 1, requests = [] \<rparr>)"
    by code_simp
  from h1 h2 a c b show ?thesis by simp
qed

text \<open>
  C9, as the specification states it: normalizing the same raw item twice gives two
  identical records, for every raw item.

  For an item with neither \<open>timeStamp\<close> nor \<open>block_signed_at\<close> the record's \<open>time\<close> is the
  reading of the clock, which the call changes. The empty object, normalized in a fresh
  world and again in the world the first call left, gets the times 1700000000000 and
  1700000000001.
\<close>

theorem normalize_twice_counterexample:
  "normalizeTokenTx (sample_runtime (always (replies JNull))) (JObj []) ''etherscan'' fresh_world
     = (Inr \<lparr> source = ''etherscan'', hash = JUndefined, time = Date (Fin 1700000000000),
              from' = JUndefined, to' = JUndefined, tokenSymbol = JUndefined,
              tokenName = JUndefined, contractAddress = JUndefined, value' = JUndefined,
              decimals = Fin 18 \<rparr>, \<lparr> clock_reads = 1, requests = [] \<rparr>) \<and>
   normalizeTokenTx (sample_runtime (always (replies JNull))) (JObj []) ''etherscan''
     \<lparr> clock_reads = 1, requests = [] \<rparr>
     = (Inr \<lparr> source = ''etherscan'', hash = JUndefined, time = Date (Fin 1700000000001),
              from' = JUndefined, to' = JUndefined, tokenSymbol = JUndefined,
              tokenName = JUndefined, contractAddress = JUndefined, value' = JUndefined,
              decimals = Fin 18 \<rparr>, \<lparr> clock_reads = 2, requests = [] \<rparr>)"
  by code_simp

text \<open>
  C9, amended: normalization depends on no state but the clock. For every raw item and
  source tag, normalizing it in two worlds \<open>w\<close> and \<open>w'\<close> gives results that agree in
  everything but the \<open>time\<close> field (they are equal once \<open>time\<close> is overwritten with the same
  date \<open>d\<close>); and when the item carries a truthy \<open>timeStamp\<close> or \<open>block_signed_at\<close>, the two
  results are identical and the call leaves the world as it was.
\<close>

theorem normalize_repeatable:
  "map_sum id (\<lambda>r. r\<lparr>time := d\<rparr>) (fst (normalizeTokenTx rt tx src w'))
     = map_sum id (\<lambda>r. r\<lparr>time := d\<rparr>) (fst (normalizeTokenTx rt tx src w)) \<and>
   (truthy (get tx ''timeStamp'') \<or> truthy (get tx ''block_signed_at'')
      \<longrightarrow> fst (normalizeTokenTx rt tx src w') = fst (normalizeTokenTx rt tx src w) \<and>
          snd (normalizeTokenTx rt tx src w) = w)"
  by (auto simp: normalizeTokenTx_def time_argument_def Date_now_def
           split: if_splits prod.splits sum.splits)

theorem normalize_repeatable_witness:
  "(truthy (get (JObj [(''timeStamp'', JStr ''1700000000'')]) ''timeStamp'') \<or>
    truthy (get (JObj [(''timeStamp'', JStr ''1700000000'')]) ''block_signed_at'')) \<and>
   fst (normalizeTokenTx (sample_runtime (always (replies JNull)))
          (JObj [(''timeStamp'', JStr ''1700000000'')]) ''etherscan''
          \<lparr> clock_reads = 1, requests = [] \<rparr>)
     = fst (normalizeTokenTx (sample_runtime (always (replies JNull)))
              (JObj [(''timeStamp'', JStr ''1700000000'')]) ''etherscan'' fresh_world) \<and>
   snd (normalizeTokenTx (sample_runtime (always (replies JNull)))
          (JObj [(''timeStamp'', JStr ''1700000000'')]) ''etherscan'' fresh_world)
     = fresh_world"
proof -
  have h: "truthy (get (JObj [(''timeStamp'', JStr ''1700000000'')]) ''timeStamp'') \<or>
           truthy (get (JObj [(''timeStamp'', JStr ''1700000000'')]) ''block_signed_at'')"
    by simp
  from normalize_repeatable [of "Date NaN" "sample_runtime (always (replies JNull))"
      "JObj [(''timeStamp'', JStr ''1700000000'')]" "''etherscan''"
      "\<lparr> clock_reads = 1, requests = [] \<rparr>" fresh_world] h
  show ?thesis by blast
qed

section \<open>The Covalent adapter\<close>

lemma js_or_undefined [simp]: "js_or JUndefined b = b"
  by (simp add: js_or_def)

lemma get_covalent_raw:
  "get (covalent_raw item t) ''hash'' = JUndefined"
  "get (covalent_raw item t) ''transactionHash'' = JUndefined"
  "get (covalent_raw item t) ''tx_hash'' = get item ''tx_hash''"
  "get (covalent_raw item t) ''timeStamp'' = JUndefined"
  "get (covalent_raw item t) ''block_signed_at'' = get item ''block_signed_at''"
  "get (covalent_raw item t) ''from'' = JUndefined"
  "get (covalent_raw item t) ''from_address'' = get t ''from_address''"
  "get (covalent_raw item t) ''to'' = JUndefined"
  "get (covalent_raw item t) ''to_address'' = get t ''to_address''"
  "get (covalent_raw item t) ''tokenSymbol'' = JUndefined"
  "get (covalent_raw item t) ''token_symbol'' = get t ''contract_ticker_symbol''"
  "get (covalent_raw item t) ''tokenName'' = JUndefined"
  "get (covalent_raw item t) ''token_name'' = get t ''contract_name''"
  "get (covalent_raw item t) ''contractAddress'' = JUndefined"
  "get (covalent_raw item t) ''contract_address'' = get t ''contract_address''"
  "get (covalent_raw item t) ''value'' = get t ''delta''"
  "get (covalent_raw item t) ''tokenDecimal'' = JUndefined"
  "get (covalent_raw item t) ''token_decimals'' = get t ''contract_decimals''"
  by (simp_all add: covalent_raw_def)

lemma normalize_covalent_raw:
  assumes "normalizable (covalent_raw item t)"
  shows "\<exists>r w'. normalizeTokenTx rt (covalent_raw item t) ''covalent'' w = (Inr r, w')
               \<and> event_record rt (item, t) r"
proof -
  from normalizeTokenTx_returns [OF assms]
  obtain r w' where n: "normalizeTokenTx rt (covalent_raw item t) ''covalent'' w = (Inr r, w')"
    by blast
  have ts: "\<not> truthy (get (covalent_raw item t) ''timeStamp'')"
    by (simp add: get_covalent_raw)
  have t1: "\<exists>s. to_string rt (get item ''block_signed_at'') = Inr s \<and>
                time r = new_Date (date_parse rt s)"
    if "truthy (get item ''block_signed_at'')"
    using normalizeTokenTx_time(2) [OF n ts] that by (simp add: get_covalent_raw)
  have t2: "\<exists>k. time r = new_Date (to_double (of_int (date_now rt k)))"
    if "\<not> truthy (get item ''block_signed_at'')"
    using normalizeTokenTx_time(3) [OF n ts] that by (auto simp: get_covalent_raw)
  have "event_record rt (item, t) r"
    using normalizeTokenTx_fields [OF n] t1 t2
    by (simp add: event_record_def get_covalent_raw)
  with n show ?thesis by blast
qed

lemma iterate_error: "iterate v = Inl e \<Longrightarrow> e = TypeError"
  by (auto simp: iterate_def split: jsval.splits)

lemma fst_pair: "fst p = a \<Longrightarrow> \<exists>b. p = (a, b)"
  by (cases p) simp

lemma transfers_loop_ok:
  "list_all (\<lambda>t. \<not> nullish t \<and> normalizable (covalent_raw item t)) ts \<Longrightarrow>
     \<exists>new w'. transfers_loop rt item ts fl w = (Inr (fl @ new), w')
              \<and> list_all2 (event_record rt) (map (Pair item) ts) new"
proof (induction ts arbitrary: fl w)
  case Nil
  then show ?case by simp
next
  case (Cons t ts)
  from Cons.prems have nn: "\<not> nullish t" and nz: "normalizable (covalent_raw item t)"
    and rest: "list_all (\<lambda>t. \<not> nullish t \<and> normalizable (covalent_raw item t)) ts"
    by simp_all
  from normalize_covalent_raw [OF nz, of rt w]
  obtain r w1 where n: "normalizeTokenTx rt (covalent_raw item t) ''covalent'' w = (Inr r, w1)"
    and e: "event_record rt (item, t) r" by blast
  from Cons.IH [OF rest, of "fl @ [r]" w1]
  obtain new w' where l: "transfers_loop rt item ts (fl @ [r]) w1 = (Inr ((fl @ [r]) @ new), w')"
    and a: "list_all2 (event_record rt) (map (Pair item) ts) new" by blast
  from nn n l have "transfers_loop rt item (t # ts) fl w = (Inr (fl @ (r # new)), w')"
    by simp
  moreover from e a have "list_all2 (event_record rt) (map (Pair item) (t # ts)) (r # new)"
    by simp
  ultimately show ?case by blast
qed

lemma transfers_loop_fail:
  "\<not> list_all (\<lambda>t. \<not> nullish t \<and> normalizable (covalent_raw item t)) ts \<Longrightarrow>
     fst (transfers_loop rt item ts fl w) = Inl TypeError"
proof (induction ts arbitrary: fl w)
  case Nil
  then show ?case by simp
next
  case (Cons t ts)
  show ?case
  proof (cases "nullish t")
    case True
    then show ?thesis by simp
  next
    case nn: False
    show ?thesis
    proof (cases "normalizable (covalent_raw item t)")
      case False
      from fst_pair [OF normalizeTokenTx_throws [OF False, of rt "''covalent''" w]]
      obtain w1 where "normalizeTokenTx rt (covalent_raw item t) ''covalent'' w
                       = (Inl TypeError, w1)" by blast
      with nn show ?thesis by simp
    next
      case True
      from normalize_covalent_raw [OF True, of rt w]
      obtain r w1 where n: "normalizeTokenTx rt (covalent_raw item t) ''covalent'' w = (Inr r, w1)"
        by blast
      from nn True Cons.prems
      have "\<not> list_all (\<lambda>t. \<not> nullish t \<and> normalizable (covalent_raw item t)) ts" by simp
      from Cons.IH [OF this, of "fl @ [r]" w1] nn n show ?thesis by simp
    qed
  qed
qed

lemma items_loop_ok:
  "list_all item_ok its \<Longrightarrow>
     \<exists>new w'. items_loop rt its fl w = (Inr (fl @ new), w')
              \<and> list_all2 (event_record rt)
                   (concat (map (\<lambda>item. map (Pair item) (events_of item)) its)) new"
proof (induction its arbitrary: fl w)
  case Nil
  then show ?case by simp
next
  case (Cons item its)
  from Cons.prems have ok: "item_ok item" and rest: "list_all item_ok its" by simp_all
  from ok obtain ts where it: "iterate (js_or (get item ''transfers'') (JArr [])) = Inr ts"
    and ts: "list_all (\<lambda>t. \<not> nullish t \<and> normalizable (covalent_raw item t)) ts"
    and nn: "\<not> nullish item"
    by (auto simp: item_ok_def split: sum.splits)
  from it have ev: "events_of item = ts" by (simp add: events_of_def)
  from transfers_loop_ok [OF ts, of rt fl w]
  obtain new1 w1 where t: "transfers_loop rt item ts fl w = (Inr (fl @ new1), w1)"
    and a1: "list_all2 (event_record rt) (map (Pair item) ts) new1" by blast
  from Cons.IH [OF rest, of "fl @ new1" w1]
  obtain new2 w2 where i: "items_loop rt its (fl @ new1) w1 = (Inr ((fl @ new1) @ new2), w2)"
    and a2: "list_all2 (event_record rt)
               (concat (map (\<lambda>item. map (Pair item) (events_of item)) its)) new2" by blast
  from nn it t i have "items_loop rt (item # its) fl w = (Inr (fl @ (new1 @ new2)), w2)"
    by simp
  moreover from a1 a2 ev
  have "list_all2 (event_record rt)
          (concat (map (\<lambda>item. map (Pair item) (events_of item)) (item # its))) (new1 @ new2)"
    by (simp add: list_all2_appendI)
  ultimately show ?case by blast
qed

lemma items_loop_fail:
  "\<not> list_all item_ok its \<Longrightarrow> fst (items_loop rt its fl w) = Inl TypeError"
proof (induction its arbitrary: fl w)
  case Nil
  then show ?case by simp
next
  case (Cons item its)
  show ?case
  proof (cases "item_ok item")
    case True
    then obtain ts where it: "iterate (js_or (get item ''transfers'') (JArr [])) = Inr ts"
      and ts: "list_all (\<lambda>t. \<not> nullish t \<and> normalizable (covalent_raw item t)) ts"
      and nn: "\<not> nullish item"
      by (auto simp: item_ok_def split: sum.splits)
    from transfers_loop_ok [OF ts, of rt fl w]
    obtain new1 w1 where t: "transfers_loop rt item ts fl w = (Inr (fl @ new1), w1)" by blast
    from True Cons.prems have "\<not> list_all item_ok its" by simp
    from Cons.IH [OF this, of "fl @ new1" w1] nn it t show ?thesis by simp
  next
    case False
    show ?thesis
    proof (cases "nullish item")
      case True
      then show ?thesis by simp
    next
      case nn: False
      show ?thesis
      proof (cases "iterate (js_or (get item ''transfers'') (JArr []))")
        case (Inl e)
        with nn iterate_error [OF Inl] show ?thesis by simp
      next
        case (Inr ts)
        with False nn
        have "\<not> list_all (\<lambda>t. \<not> nullish t \<and> normalizable (covalent_raw item t)) ts"
          by (simp add: item_ok_def)
        from fst_pair [OF transfers_loop_fail [OF this, of rt fl w]]
        obtain w1 where "transfers_loop rt item ts fl w = (Inl TypeError, w1)" by blast
        with nn Inr show ?thesis by simp
      qed
    qed
  qed
qed

lemma covalent_body_ok:
  assumes "well_shaped json"
  shows "\<exists>recs w'. covalent_body rt json w = (Inr recs, w')
                   \<and> list_all2 (event_record rt) (transfer_events json) recs"
proof -
  from assms obtain its
    where it: "iterate (js_or (opt_get (opt_get json ''data'') ''items'') (JArr [])) = Inr its"
      and ok: "list_all item_ok its"
    by (auto simp: well_shaped_def split: sum.splits)
  from items_loop_ok [OF ok, of rt "[]" w] it show ?thesis
    by (simp add: covalent_body_def transfer_events_def items_of_def)
qed

lemma covalent_body_fail:
  assumes "\<not> well_shaped json"
  shows "fst (covalent_body rt json w) = Inl TypeError"
proof (cases "iterate (js_or (opt_get (opt_get json ''data'') ''items'') (JArr []))")
  case (Inl e)
  with iterate_error [OF Inl] show ?thesis by (simp add: covalent_body_def)
next
  case (Inr its)
  with assms have "\<not> list_all item_ok its" by (simp add: well_shaped_def)
  from items_loop_fail [OF this, of rt "[]" w] Inr show ?thesis by (simp add: covalent_body_def)
qed

lemma fetchJSON_ok:
  "fetch rt (url, init) = Inr res \<Longrightarrow> ok res \<Longrightarrow> body_json res = Inr json \<Longrightarrow>
     fetchJSON rt url init w = (Inr json, w\<lparr>requests := requests w @ [(url, init)]\<rparr>)"
  by (simp add: fetchJSON_def)

lemma covalent_adapter_body:
  assumes "covalent_answers cfg rt address options json"
  shows "\<exists>w1. fetchCovalentTokenTransfers cfg rt address options w = covalent_body rt json w1"
  using assms
  by (auto simp: covalent_answers_def fetchCovalentTokenTransfers_def fetchJSON_ok
           split: sum.splits)

text \<open>
  C5, as the specification states it: for every response, one record per transfer event
  across all items, each with its parent's hash and block timestamp, so that the two
  events of one item give two records with the same timestamp.

  Two responses show otherwise. When the item carries no \<^verbatim>\<open>block_signed_at\<close>, each record
  gets its own reading of the clock: the two records of \<open>untimed_body\<close> have the times
  1700000000000 and 1700000000001. And a response the adapter cannot walk through gives no
  record at all: with a \<^verbatim>\<open>null\<close> item after an item with one event, the call fails with
  a \<^verbatim>\<open>TypeError\<close>.
\<close>

theorem covalent_same_timestamp_counterexample:
  "fetchCovalentTokenTransfers covalent_only (sample_runtime (always (replies untimed_body)))
     ''0xabc'' JUndefined fresh_world
   = (Inr [\<lparr> source = ''covalent'', hash = JStr ''0xAA'', time = Date (Fin 1700000000000),
             from' = JStr ''0x1'', to' = JStr ''0x2'', tokenSymbol = JUndefined,
             tokenName = JUndefined, contractAddress = JUndefined,
             value' = JStr ''1000000'', decimals = Fin 6 \<rparr>,
           \<lparr> source = ''covalent'', hash = JStr ''0xAA'', time = Date (Fin 1700000000001),
             from' = JStr ''0x3'', to' = JStr ''0x4'', tokenSymbol = JUndefined,
             tokenName = JUndefined, contractAddress = JUndefined,
             value' = JStr ''2500000'', decimals = Fin 6 \<rparr>],
      \<lparr> clock_reads = 2, requests = [covalent_request] \<rparr>) \<and>
   fetchCovalentTokenTransfers covalent_only
     (sample_runtime (always (replies
        (JObj [(''data'', JObj [(''items'', JArr
           [JObj [(''tx_hash'', JStr ''0xAA''),
                  (''block_signed_at'', JStr ''2023-11-14T22:13:20Z''),
                  (''transfers'', JArr [JObj [(''delta'', JStr ''7'')]])],
            JNull])])]))))
     ''0xabc'' JUndefined fresh_world
   = (Inl TypeError, \<lparr> clock_reads = 0, requests = [covalent_request] \<rparr>)"
  by code_simp

text \<open>
  C5, amended: for every transport-successful response the adapter can walk through
  (\<open>well_shaped\<close>: what it iterates is iterable, no item or event is \<^verbatim>\<open>null\<close>, and the block
  time and decimal count that are read can be converted), the adapter returns, in order,
  exactly one record per transfer event across all transaction items (\<open>list_all2\<close> pairs
  them off, so the lengths agree). Each record has its parent's hash and, when the parent
  carries a block time, the date parsed from it, otherwise the date of a reading of the
  clock; sender, recipient, token and amount are the event's. So one item that carries a
  block time and two events yields exactly two records with the same hash and time, which
  differ in \<open>from\<close>, \<open>to\<close> and \<open>value\<close> as the events do.
\<close>

theorem covalent_one_record_per_event:
  assumes "covalent_answers cfg rt address options json"
    and "well_shaped json"
  shows "\<exists>recs w'. fetchCovalentTokenTransfers cfg rt address options w = (Inr recs, w') \<and>
           length recs = length (transfer_events json) \<and>
           list_all2 (event_record rt) (transfer_events json) recs"
proof -
  from covalent_adapter_body [OF assms(1), of w]
  obtain w1 where b: "fetchCovalentTokenTransfers cfg rt address options w
                      = covalent_body rt json w1" by blast
  from covalent_body_ok [OF assms(2), of rt w1]
  obtain recs w' where r: "covalent_body rt json w1 = (Inr recs, w')"
    and a: "list_all2 (event_record rt) (transfer_events json) recs" by blast
  from a have "length recs = length (transfer_events json)" by (simp add: list_all2_lengthD)
  with r a b show ?thesis by simp
qed

theorem covalent_one_record_per_event_witness:
  "covalent_answers covalent_only (sample_runtime (always (replies two_transfer_body)))
     ''0xabc'' JUndefined two_transfer_body \<and>
   well_shaped two_transfer_body \<and>
   fetchCovalentTokenTransfers covalent_only (sample_runtime (always (replies two_transfer_body)))
     ''0xabc'' JUndefined fresh_world
   = (Inr [\<lparr> source = ''covalent'', hash = JStr ''0xAA'', time = Date (Fin 1700000000000),
             from' = JStr ''0x1'', to' = JStr ''0x2'', tokenSymbol = JStr ''USDT'',
             tokenName = JUndefined, contractAddress = JUndefined,
             value' = JStr ''1000000'', decimals = Fin 6 \<rparr>,
           \<lparr> source = ''covalent'', hash = JStr ''0xAA'', time = Date (Fin 1700000000000),
             from' = JStr ''0x3'', to' = JStr ''0x4'', tokenSymbol = JStr ''USDT'',
             tokenName = JUndefined, contractAddress = JUndefined,
             value' = JStr ''2500000'', decimals = Fin 6 \<rparr>],
      \<lparr> clock_reads = 0, requests = [covalent_request] \<rparr>) \<and>
   length (transfer_events two_transfer_body) = 2 \<and>
   covalent_answers covalent_only (sample_runtime (always (replies sparse_body)))
     ''0xabc'' JUndefined sparse_body \<and>
   well_shaped sparse_body \<and>
   length (transfer_events sparse_body) = 1 \<and>
   length (projr (fst (fetchCovalentTokenTransfers covalent_only
                         (sample_runtime (always (replies sparse_body))) ''0xabc'' JUndefined
                         fresh_world))) = 1"
proof -
  have a: "covalent_answers covalent_only (sample_runtime (always (replies two_transfer_body)))
     ''0xabc'' JUndefined two_transfer_body"
    by code_simp
  have s: "well_shaped two_transfer_body" by code_simp
  have f: "fetchCovalentTokenTransfers covalent_only
     (sample_runtime (always (replies two_transfer_body))) ''0xabc'' JUndefined fresh_world
   = (Inr [\<lparr> source = ''covalent'', hash = JStr ''0xAA'', time = Date (Fin 1700000000000),
             from' = JStr ''0x1'', to' = JStr ''0x2'', tokenSymbol = JStr ''USDT'',
             tokenName = JUndefined, contractAddress = JUndefined,
             value' = JStr ''1000000'', decimals = Fin 6 \<rparr>,
           \<lparr> source = ''covalent'', hash = JStr ''0xAA'', time = Date (Fin 1700000000000),
             from' = JStr ''0x3'', to' = JStr ''0x4'', tokenSymbol = JStr ''USDT'',
             tokenName = JUndefined, contractAddress = JUndefined,
             value' = JStr ''2500000'', decimals = Fin 6 \<rparr>],
      \<lparr> clock_reads = 0, requests = [covalent_request] \<rparr>)"
    by code_simp
  from covalent_one_record_per_event [OF a s, of fresh_world] f
  have l: "length (transfer_events two_transfer_body) = 2" by auto
  have a2: "covalent_answers covalent_only (sample_runtime (always (replies sparse_body)))
     ''0xabc'' JUndefined sparse_body"
    by code_simp
  have s2: "well_shaped sparse_body" by code_simp
  have e2: "length (transfer_events sparse_body) = 1" by code_simp
  from covalent_one_record_per_event [OF a2 s2, of fresh_world] e2
  have l2: "length (projr (fst (fetchCovalentTokenTransfers covalent_only
                         (sample_runtime (always (replies sparse_body))) ''0xabc'' JUndefined
                         fresh_world))) = 1"
    by auto
  from a s f l a2 s2 e2 l2 show ?thesis by simp
qed

text \<open>
  C10, as stated: for every transport-successful JSON body the Covalent adapter returns a
  list, without failing.

  It does not for a body it cannot walk through. With \<^verbatim>\<open>{ data: { items: [null] } }\<close> the
  read \<^verbatim>\<open>item.transfers\<close> throws, and the call fails with a \<^verbatim>\<open>TypeError\<close>.
\<close>

theorem covalent_always_list_counterexample:
  "covalent_answers covalent_only
     (sample_runtime (always (replies (JObj [(''data'', JObj [(''items'', JArr [JNull])])]))))
     ''0xabc'' JUndefined (JObj [(''data'', JObj [(''items'', JArr [JNull])])]) \<and>
   fetchCovalentTokenTransfers covalent_only
     (sample_runtime (always (replies (JObj [(''data'', JObj [(''items'', JArr [JNull])])]))))
     ''0xabc'' JUndefined fresh_world
   = (Inl TypeError, \<lparr> clock_reads = 0, requests = [covalent_request] \<rparr>)"
  by code_simp

text \<open>
  C10, amended: the Covalent adapter raises no error of its own on a transport-successful
  body. For every such body it returns a list when the body is well shaped (what it
  iterates is iterable, no item or event is \<^verbatim>\<open>null\<close>, and no block time or decimal count
  that is read is an object with an own \<^verbatim>\<open>toString\<close> property, or an array holding one),
  and fails with a \<^verbatim>\<open>TypeError\<close> otherwise. A missing, \<^verbatim>\<open>null\<close> or otherwise falsy \<^verbatim>\<open>data\<close>
  or \<^verbatim>\<open>data.items\<close> gives the empty list, and the number of records is the sum over the
  items of the number of their events, an item with a missing or falsy \<^verbatim>\<open>transfers\<close>
  field counting zero.
\<close>

theorem covalent_list_or_type_error:
  assumes "covalent_answers cfg rt address options json"
  shows "(well_shaped json \<longrightarrow>
            (\<exists>recs w'. fetchCovalentTokenTransfers cfg rt address options w = (Inr recs, w') \<and>
               length recs =
                 sum_list (map (\<lambda>item. if truthy (get item ''transfers'')
                                        then length (events_of item) else 0) (items_of json)))) \<and>
         (\<not> well_shaped json \<longrightarrow>
            fst (fetchCovalentTokenTransfers cfg rt address options w) = Inl TypeError) \<and>
         (\<not> truthy (opt_get (opt_get json ''data'') ''items'') \<longrightarrow>
            fst (fetchCovalentTokenTransfers cfg rt address options w) = Inr [])"
proof -
  from covalent_adapter_body [OF assms, of w]
  obtain w1 where b: "fetchCovalentTokenTransfers cfg rt address options w
                      = covalent_body rt json w1" by blast
  have ev: "(if truthy (get item ''transfers'') then length (events_of item) else 0)
            = length (events_of item)" for item
    by (simp add: events_of_def js_or_def iterate_def)
  have len: "length (transfer_events json)
             = sum_list (map (\<lambda>item. if truthy (get item ''transfers'')
                                      then length (events_of item) else 0) (items_of json))"
    by (simp add: transfer_events_def length_concat comp_def ev)
  have 1: "\<exists>recs w'. fetchCovalentTokenTransfers cfg rt address options w = (Inr recs, w') \<and>
             length recs =
               sum_list (map (\<lambda>item. if truthy (get item ''transfers'')
                                      then length (events_of item) else 0) (items_of json))"
    if "well_shaped json"
  proof -
    from covalent_body_ok [OF that, of rt w1]
    obtain recs w' where r: "covalent_body rt json w1 = (Inr recs, w')"
      and a: "list_all2 (event_record rt) (transfer_events json) recs" by blast
    from a have "length recs = length (transfer_events json)" by (simp add: list_all2_lengthD)
    with r b len show ?thesis by simp
  qed
  have 2: "fst (fetchCovalentTokenTransfers cfg rt address options w) = Inl TypeError"
    if "\<not> well_shaped json"
    using covalent_body_fail [OF that, of rt w1] b by simp
  have 3: "fst (fetchCovalentTokenTransfers cfg rt address options w) = Inr []"
    if "\<not> truthy (opt_get (opt_get json ''data'') ''items'')"
    using that b by (simp add: covalent_body_def js_or_def iterate_def)
  from 1 2 3 show ?thesis by blast
qed

theorem covalent_list_or_type_error_witness:
  "covalent_answers covalent_only (sample_runtime (always (replies (JObj [(''data'', JNull)]))))
     ''0xabc'' JUndefined (JObj [(''data'', JNull)]) \<and>
   fst (fetchCovalentTokenTransfers covalent_only
          (sample_runtime (always (replies (JObj [(''data'', JNull)])))) ''0xabc'' JUndefined
          fresh_world) = Inr [] \<and>
   covalent_answers covalent_only (sample_runtime (always (replies sparse_body)))
     ''0xabc'' JUndefined sparse_body \<and>
   well_shaped sparse_body \<and>
   length (projr (fst (fetchCovalentTokenTransfers covalent_only
                         (sample_runtime (always (replies sparse_body))) ''0xabc'' JUndefined
                         fresh_world))) = 1 \<and>
   covalent_answers covalent_only
     (sample_runtime (always (replies
        (JObj [(''data'', JObj [(''items'', JArr
           [JObj [(''transfers'', JArr
              [JObj [(''contract_decimals'', JObj [(''toString'', JNum (Fin 1))])]])]])])]))))
     ''0xabc'' JUndefined
     (JObj [(''data'', JObj [(''items'', JArr
        [JObj [(''transfers'', JArr
           [JObj [(''contract_decimals'', JObj [(''toString'', JNum (Fin 1))])]])]])])]) \<and>
   \<not> well_shaped
       (JObj [(''data'', JObj [(''items'', JArr
          [JObj [(''transfers'', JArr
             [JObj [(''contract_decimals'', JObj [(''toString'', JNum (Fin 1))])]])]])])]) \<and>
   fst (fetchCovalentTokenTransfers covalent_only
          (sample_runtime (always (replies
             (JObj [(''data'', JObj [(''items'', JArr
                [JObj [(''transfers'', JArr
                   [JObj [(''contract_decimals'', JObj [(''toString'', JNum (Fin 1))])]])]])])]))))
          ''0xabc'' JUndefined fresh_world) = Inl TypeError"
proof -
  have a1: "covalent_answers covalent_only
              (sample_runtime (always (replies (JObj [(''data'', JNull)]))))
              ''0xabc'' JUndefined (JObj [(''data'', JNull)])"
    by code_simp
  have f1: "\<not> truthy (opt_get (opt_get (JObj [(''data'', JNull)]) ''data'') ''items'')"
    by code_simp
  have a2: "covalent_answers covalent_only (sample_runtime (always (replies sparse_body)))
              ''0xabc'' JUndefined sparse_body"
    by code_simp
  have s2: "well_shaped sparse_body" by code_simp
  have n2: "sum_list (map (\<lambda>item. if truthy (get item ''transfers'')
                                   then length (events_of item) else 0) (items_of sparse_body))
            = 1"
    by code_simp
  have a3: "covalent_answers covalent_only
     (sample_runtime (always (replies
        (JObj [(''data'', JObj [(''items'', JArr
           [JObj [(''transfers'', JArr
              [JObj [(''contract_decimals'', JObj [(''toString'', JNum (Fin 1))])]])]])])]))))
     ''0xabc'' JUndefined
     (JObj [(''data'', JObj [(''items'', JArr
        [JObj [(''transfers'', JArr
           [JObj [(''contract_decimals'', JObj [(''toString'', JNum (Fin 1))])]])]])])])"
    by code_simp
  have s3: "\<not> well_shaped
       (JObj [(''data'', JObj [(''items'', JArr
          [JObj [(''transfers'', JArr
             [JObj [(''contract_decimals'', JObj [(''toString'', JNum (Fin 1))])]])]])])])"
    by code_simp
  from covalent_list_or_type_error [OF a1, of fresh_world] f1
  have c1: "fst (fetchCovalentTokenTransfers covalent_only
                   (sample_runtime (always (replies (JObj [(''data'', JNull)])))) ''0xabc''
                   JUndefined fresh_world) = Inr []"
    by blast
  from covalent_list_or_type_error [OF a2, of fresh_world] s2 n2
  have c2: "length (projr (fst (fetchCovalentTokenTransfers covalent_only
                         (sample_runtime (always (replies sparse_body))) ''0xabc'' JUndefined
                         fresh_world))) = 1"
    by auto
  from covalent_list_or_type_error [OF a3, of fresh_world] s3
  have c3: "fst (fetchCovalentTokenTransfers covalent_only
          (sample_runtime (always (replies
             (JObj [(''data'', JObj [(''items'', JArr
                [JObj [(''transfers'', JArr
                   [JObj [(''contract_decimals'', JObj [(''toString'', JNum (Fin 1))])]])]])])]))))
          ''0xabc'' JUndefined fresh_world) = Inl TypeError"
    by blast
  from a1 c1 a2 s2 c2 a3 s3 c3 show ?thesis by simp
qed

section \<open>The Etherscan adapter\<close>

lemma etherscan_adapter_body:
  assumes "etherscan_answers cfg rt address options json"
  shows "\<exists>w1. fetchEtherscanTokenTransfers cfg rt address options w = etherscan_body rt json w1"
  using assms
  by (auto simp: etherscan_answers_def fetchEtherscanTokenTransfers_def fetchJSON_ok
           split: sum.splits)

lemma normalize_each_ok:
  "list_all normalizable txs \<Longrightarrow>
     \<exists>recs w'. normalize_each rt src txs w = (Inr recs, w')
               \<and> list_all2 (\<lambda>tx r. \<exists>wa. fst (normalizeTokenTx rt tx src wa) = Inr r) txs recs"
proof (induction txs arbitrary: w)
  case Nil
  then show ?case by simp
next
  case (Cons tx txs)
  from Cons.prems have "normalizable tx" and rest: "list_all normalizable txs" by simp_all
  from normalizeTokenTx_returns [OF this(1), of rt src w]
  obtain r w1 where n: "normalizeTokenTx rt tx src w = (Inr r, w1)" by blast
  from Cons.IH [OF rest, of w1]
  obtain recs w' where e: "normalize_each rt src txs w1 = (Inr recs, w')"
    and a: "list_all2 (\<lambda>tx r. \<exists>wa. fst (normalizeTokenTx rt tx src wa) = Inr r) txs recs"
    by blast
  from n have "\<exists>wa. fst (normalizeTokenTx rt tx src wa) = Inr r"
    by (metis fst_conv)
  with a have "list_all2 (\<lambda>tx r. \<exists>wa. fst (normalizeTokenTx rt tx src wa) = Inr r)
                 (tx # txs) (r # recs)" by simp
  moreover from n e have "normalize_each rt src (tx # txs) w = (Inr (r # recs), w')" by simp
  ultimately show ?case by blast
qed

lemma error_template:
  assumes "to_string rt (js_or message (JStr [])) = Inr s"
  shows "template rt [Inl ''Etherscan error (V2): '',
                      Inr (js_or (js_or message (JStr [])) (JStr ''ERROR'')), Inl '': '',
                      Inr (if isString result then result
                           else case json_stringify rt result of
                                  None \<Rightarrow> JUndefined
                                | Some d \<Rightarrow> JStr d)]
         = Inr (''Etherscan error (V2): '' @ (if truthy message then s else ''ERROR'') @ '': ''
                @ (case result of
                     JStr d \<Rightarrow> d
                   | _ \<Rightarrow> (case json_stringify rt result of
                             None \<Rightarrow> ''undefined''
                           | Some d \<Rightarrow> d)))"
proof -
  have m: "to_string rt (js_or (js_or message (JStr [])) (JStr ''ERROR''))
           = Inr (if truthy message then s else ''ERROR'')"
    using assms by (auto simp: js_or_def split: if_splits)
  have d: "to_string rt (if isString result then result
                         else case json_stringify rt result of
                                None \<Rightarrow> JUndefined
                              | Some d \<Rightarrow> JStr d)
           = Inr (case result of
                    JStr d \<Rightarrow> d
                  | _ \<Rightarrow> (case json_stringify rt result of
                            None \<Rightarrow> ''undefined''
                          | Some d \<Rightarrow> d))"
    by (cases result; cases "json_stringify rt result") (simp_all add: isString_def)
  show ?thesis by (simp add: m d)
qed

text \<open>
  C4, as the specification states it: every transport-successful body goes one of three
  ways, its elements mapped to records, the empty list, or a provider error.

  Four bodies go none of them; the call fails with a \<^verbatim>\<open>TypeError\<close> instead. With
  \<^verbatim>\<open>{ status: "1", result: "x" }\<close> the second shape applies and \<^verbatim>\<open>"x".map\<close> is not a
  function. With the body \<^verbatim>\<open>null\<close> the read \<^verbatim>\<open>json.status\<close> throws. With
  \<^verbatim>\<open>{ result: [null] }\<close> the first shape applies and \<open>normalizeTokenTx\<close> throws on the
  element. With \<^verbatim>\<open>{ status: "0", message: { toString: 1 }, result: "r" }\<close> the third shape
  applies and the test of the regular expression cannot convert the message to a string.
\<close>

theorem etherscan_three_shapes_counterexample:
  "fetchEtherscanTokenTransfers etherscan_only
     (sample_runtime (always (replies (JObj [(''status'', JStr ''1''), (''result'', JStr ''x'')]))))
     ''0xabc'' JUndefined fresh_world
   = (Inl TypeError, \<lparr> clock_reads = 0, requests = [etherscan_request] \<rparr>) \<and>
   fetchEtherscanTokenTransfers etherscan_only (sample_runtime (always (replies JNull)))
     ''0xabc'' JUndefined fresh_world
   = (Inl TypeError, \<lparr> clock_reads = 0, requests = [etherscan_request] \<rparr>) \<and>
   fetchEtherscanTokenTransfers etherscan_only
     (sample_runtime (always (replies (JObj [(''result'', JArr [JNull])]))))
     ''0xabc'' JUndefined fresh_world
   = (Inl TypeError, \<lparr> clock_reads = 0, requests = [etherscan_request] \<rparr>) \<and>
   fetchEtherscanTokenTransfers etherscan_only
     (sample_runtime (always (replies
        (JObj [(''status'', JStr ''0''), (''message'', JObj [(''toString'', JNum (Fin 1))]),
               (''result'', JStr ''r'')]))))
     ''0xabc'' JUndefined fresh_world
   = (Inl TypeError, \<lparr> clock_reads = 0, requests = [etherscan_request] \<rparr>)"
  by code_simp

text \<open>
  C4, amended: for every transport-successful body other than \<^verbatim>\<open>null\<close>, the adapter tries
  three shapes in order.
  \<^enum> The \<open>result\<close> field is an array: when \<open>normalizeTokenTx\<close> returns a record for each of
    its elements (none is \<^verbatim>\<open>null\<close>, and the time and decimal fields read can be
    converted), the call returns one record per element, each the normalization of its
    element with the source tag \<^verbatim>\<open>etherscan\<close>.
  \<^enum> \<open>result\<close> is not an array and \<open>status\<close> is \<^verbatim>\<open>"1"\<close> or \<open>message\<close> is \<^verbatim>\<open>"OK"\<close>: an absent or
    falsy \<open>result\<close> gives the empty list.
  \<^enum> Otherwise, when the message (the empty string when it is absent or falsy) converts
    to the string \<open>s\<close>: if \<open>s\<close> contains \<^verbatim>\<open>no transactions\<close> in any letter case, the result is
    the empty list, a success; if not, the call fails with the error
    \<^verbatim>\<open>Etherscan error (V2): <s, or ERROR when the message is falsy>: <detail>\<close>, where the
    detail is \<open>result\<close> itself when it is a string and \<^verbatim>\<open>JSON.stringify(result)\<close> when not.
  The body \<^verbatim>\<open>{ message: "No transactions found" }\<close> gives the empty list.
\<close>

theorem etherscan_three_shapes:
  assumes "etherscan_answers cfg rt address options json"
    and "\<not> nullish json"
  shows "(\<forall>txs. get json ''result'' = JArr txs \<and> list_all normalizable txs \<longrightarrow>
            (\<exists>recs w'. fetchEtherscanTokenTransfers cfg rt address options w = (Inr recs, w') \<and>
               list_all2 (\<lambda>tx r. \<exists>wa. fst (normalizeTokenTx rt tx ''etherscan'' wa) = Inr r)
                 txs recs)) \<and>
         (\<not> isArray (get json ''result'') \<and>
          (get json ''status'' = JStr ''1'' \<or> get json ''message'' = JStr ''OK'') \<and>
          \<not> truthy (get json ''result'') \<longrightarrow>
            fst (fetchEtherscanTokenTransfers cfg rt address options w) = Inr []) \<and>
         (\<forall>s. \<not> isArray (get json ''result'') \<and>
              get json ''status'' \<noteq> JStr ''1'' \<and> get json ''message'' \<noteq> JStr ''OK'' \<and>
              to_string rt (js_or (get json ''message'') (JStr [])) = Inr s \<and>
              no_transactions_test s \<longrightarrow>
            fst (fetchEtherscanTokenTransfers cfg rt address options w) = Inr []) \<and>
         (\<forall>s. \<not> isArray (get json ''result'') \<and>
              get json ''status'' \<noteq> JStr ''1'' \<and> get json ''message'' \<noteq> JStr ''OK'' \<and>
              to_string rt (js_or (get json ''message'') (JStr [])) = Inr s \<and>
              \<not> no_transactions_test s \<longrightarrow>
            fst (fetchEtherscanTokenTransfers cfg rt address options w)
            = Inl (Error (''Etherscan error (V2): ''
                          @ (if truthy (get json ''message'') then s else ''ERROR'')
                          @ '': ''
                          @ (case get json ''result'' of
                               JStr d \<Rightarrow> d
                             | _ \<Rightarrow> (case json_stringify rt (get json ''result'') of
                                       None \<Rightarrow> ''undefined''
                                     | Some d \<Rightarrow> d)))))"
proof -
  from etherscan_adapter_body [OF assms(1), of w]
  obtain w1 where b: "fetchEtherscanTokenTransfers cfg rt address options w
                      = etherscan_body rt json w1" by blast
  from assms(2) have og: "opt_get json k = get json k" for k by (simp add: opt_get_def)
  have 1: "\<exists>recs w'. fetchEtherscanTokenTransfers cfg rt address options w = (Inr recs, w') \<and>
             list_all2 (\<lambda>tx r. \<exists>wa. fst (normalizeTokenTx rt tx ''etherscan'' wa) = Inr r) txs recs"
    if "get json ''result'' = JArr txs" "list_all normalizable txs" for txs
    using normalize_each_ok [OF that(2), of rt "''etherscan''" w1] that(1) b
    by (simp add: etherscan_body_def og isArray_def elems_def)
  have 2: "fst (fetchEtherscanTokenTransfers cfg rt address options w) = Inr []"
    if "\<not> isArray (get json ''result'')"
      "get json ''status'' = JStr ''1'' \<or> get json ''message'' = JStr ''OK''"
      "\<not> truthy (get json ''result'')"
    using that assms(2) b
    by (simp add: etherscan_body_def og js_or_def isArray_def elems_def)
  have 3: "fst (fetchEtherscanTokenTransfers cfg rt address options w) = Inr []"
    if "\<not> isArray (get json ''result'')"
      "get json ''status'' \<noteq> JStr ''1''" "get json ''message'' \<noteq> JStr ''OK''"
      "to_string rt (js_or (get json ''message'') (JStr [])) = Inr s"
      "no_transactions_test s" for s
    using that assms(2) b
    by (simp add: etherscan_body_def og)
  have 4: "fst (fetchEtherscanTokenTransfers cfg rt address options w)
            = Inl (Error (''Etherscan error (V2): ''
                          @ (if truthy (get json ''message'') then s else ''ERROR'')
                          @ '': ''
                          @ (case get json ''result'' of
                               JStr d \<Rightarrow> d
                             | _ \<Rightarrow> (case json_stringify rt (get json ''result'') of
                                       None \<Rightarrow> ''undefined''
                                     | Some d \<Rightarrow> d))))"
    if "\<not> isArray (get json ''result'')"
      "get json ''status'' \<noteq> JStr ''1''" "get json ''message'' \<noteq> JStr ''OK''"
      "to_string rt (js_or (get json ''message'') (JStr [])) = Inr s"
      "\<not> no_transactions_test s" for s
    using that(1,2,3,5) assms(2) b
    by (simp add: etherscan_body_def og that(4) Let_def
          error_template [OF that(4), of "get json ''result''"] del: template.simps)
  from 1 2 3 4 show ?thesis by blast
qed

theorem etherscan_three_shapes_witness:
  "etherscan_answers etherscan_only (sample_runtime (always (replies no_transactions_body)))
     ''0xabc'' JUndefined no_transactions_body \<and>
   \<not> nullish no_transactions_body \<and>
   fst (fetchEtherscanTokenTransfers etherscan_only
          (sample_runtime (always (replies no_transactions_body))) ''0xabc'' JUndefined
          fresh_world) = Inr [] \<and>
   etherscan_answers etherscan_only (sample_runtime (always (replies invalid_key_body)))
     ''0xabc'' JUndefined invalid_key_body \<and>
   \<not> nullish invalid_key_body \<and>
   fst (fetchEtherscanTokenTransfers etherscan_only
          (sample_runtime (always (replies invalid_key_body))) ''0xabc'' JUndefined
          fresh_world) = Inl (Error ''Etherscan error (V2): NOTOK: Invalid API Key'') \<and>
   fetchEtherscanTokenTransfers etherscan_only
     (sample_runtime (always (replies one_transfer_body))) ''0xabc'' JUndefined fresh_world
   = (Inr [\<lparr> source = ''etherscan'', hash = JStr ''0xAA'', time = Date (Fin 1700000000000),
             from' = JStr ''0x1'', to' = JStr ''0x2'', tokenSymbol = JStr ''USDT'',
             tokenName = JUndefined, contractAddress = JUndefined,
             value' = JStr ''1000000'', decimals = Fin 6 \<rparr>],
      \<lparr> clock_reads = 0, requests = [etherscan_request] \<rparr>)"
proof -
  have a1: "etherscan_answers etherscan_only
              (sample_runtime (always (replies no_transactions_body)))
              ''0xabc'' JUndefined no_transactions_body"
    by code_simp
  have n1: "\<not> nullish no_transactions_body" by code_simp
  have p1: "\<not> isArray (get no_transactions_body ''result'') \<and>
            get no_transactions_body ''status'' \<noteq> JStr ''1'' \<and>
            get no_transactions_body ''message'' \<noteq> JStr ''OK'' \<and>
            to_string (sample_runtime (always (replies no_transactions_body)))
              (js_or (get no_transactions_body ''message'') (JStr []))
              = Inr ''No transactions found'' \<and>
            no_transactions_test ''No transactions found''"
    by code_simp
  have a2: "etherscan_answers etherscan_only (sample_runtime (always (replies invalid_key_body)))
              ''0xabc'' JUndefined invalid_key_body"
    by code_simp
  have n2: "\<not> nullish invalid_key_body" by code_simp
  have p2: "\<not> isArray (get invalid_key_body ''result'') \<and>
            get invalid_key_body ''status'' \<noteq> JStr ''1'' \<and>
            get invalid_key_body ''message'' \<noteq> JStr ''OK'' \<and>
            to_string (sample_runtime (always (replies invalid_key_body)))
              (js_or (get invalid_key_body ''message'') (JStr [])) = Inr ''NOTOK'' \<and>
            \<not> no_transactions_test ''NOTOK''"
    by code_simp
  have e2: "''Etherscan error (V2): ''
            @ (if truthy (get invalid_key_body ''message'') then ''NOTOK'' else ''ERROR'')
            @ '': ''
            @ (case get invalid_key_body ''result'' of
                 JStr d \<Rightarrow> d
               | _ \<Rightarrow> (case json_stringify (sample_runtime (always (replies invalid_key_body)))
                              (get invalid_key_body ''result'') of
                         None \<Rightarrow> ''undefined''
                       | Some d \<Rightarrow> d))
            = ''Etherscan error (V2): NOTOK: Invalid API Key''"
    by code_simp
  from etherscan_three_shapes [OF a1 n1, of fresh_world] p1
  have c1: "fst (fetchEtherscanTokenTransfers etherscan_only
                   (sample_runtime (always (replies no_transactions_body))) ''0xabc'' JUndefined
                   fresh_world) = Inr []"
    by blast
  from etherscan_three_shapes [OF a2 n2, of fresh_world] p2
  have "fst (fetchEtherscanTokenTransfers etherscan_only
               (sample_runtime (always (replies invalid_key_body))) ''0xabc'' JUndefined
               fresh_world)
        = Inl (Error (''Etherscan error (V2): ''
            @ (if truthy (get invalid_key_body ''message'') then ''NOTOK'' else ''ERROR'')
            @ '': ''
            @ (case get invalid_key_body ''result'' of
                 JStr d \<Rightarrow> d
               | _ \<Rightarrow> (case json_stringify (sample_runtime (always (replies invalid_key_body)))
                              (get invalid_key_body ''result'') of
                         None \<Rightarrow> ''undefined''
                       | Some d \<Rightarrow> d))))"
    by blast
  then have c2: "fst (fetchEtherscanTokenTransfers etherscan_only
                   (sample_runtime (always (replies invalid_key_body))) ''0xabc'' JUndefined
                   fresh_world) = Inl (Error ''Etherscan error (V2): NOTOK: Invalid API Key'')"
    by (simp only: e2)
  have c3: "fetchEtherscanTokenTransfers etherscan_only
     (sample_runtime (always (replies one_transfer_body))) ''0xabc'' JUndefined fresh_world
   = (Inr [\<lparr> source = ''etherscan'', hash = JStr ''0xAA'', time = Date (Fin 1700000000000),
             from' = JStr ''0x1'', to' = JStr ''0x2'', tokenSymbol = JStr ''USDT'',
             tokenName = JUndefined, contractAddress = JUndefined,
             value' = JStr ''1000000'', decimals = Fin 6 \<rparr>],
      \<lparr> clock_reads = 0, requests = [etherscan_request] \<rparr>)"
    by code_simp
  from a1 n1 c1 a2 n2 c2 c3 show ?thesis by simp
qed

end
